theory Spec2Isabelle
  imports Main
begin

section \<open>The module registry of Jenkins Job Builder (jenkins_jobs/registry.py)\<close>

text \<open>
  A shallow embedding of \<^verbatim>\<open>ModuleRegistry\<close>: the plugin metadata store
  (\<^verbatim>\<open>_get_plugins_info_dict\<close>, \<^verbatim>\<open>get_plugin_info\<close>), the keyword filter
  (\<^verbatim>\<open>_filter_kwargs\<close>) and the recursive \<^verbatim>\<open>dispatch\<close>.
  Exceptions are values of a sum type, mutation is explicit state passing, and the
  recursion of \<^verbatim>\<open>dispatch\<close> is bounded by the depth of the call stack.
\<close>

subsection \<open>Python values\<close>

text \<open>
  The values a YAML document yields: \<^verbatim>\<open>None\<close>, booleans, integers, strings,
  lists and dictionaries, and the deferred template object \<^verbatim>\<open>Jinja2Loader\<close>
  (with the text of its template; two such objects are the same key when they hold the
  same text). A dictionary is an association list in insertion order, as Python
  iterates it; no two of its entries have the same key. Floats are left out.
\<close>

datatype pyval =
    VNone
  | VBool bool
  | VInt int
  | VStr string
  | VList "pyval list"
  | VDict "(pyval \<times> pyval) list"
  | VJinja string

type_synonym dict = "(pyval \<times> pyval) list"

text \<open>
  The messages of \<^verbatim>\<open>JenkinsJobsException\<close>, kept as the format string's
  arguments; the other constructors are the built-in exceptions the code can raise
  without naming them, and \<open>OtherError\<close> is any exception of a collaborator
  (the formatter, a generator).
\<close>

datatype message =
    Unknown_component_type string
  | Duplicate_entry_point string pyval
  | Unknown_entry_point_or_macro pyval string

datatype error =
    JenkinsJobsException message
  | StopIteration
  | KeyError pyval
  | TypeError
  | ValueError
  | OtherError string

fun py_truthy :: "pyval \<Rightarrow> bool" where
  "py_truthy VNone = False"
| "py_truthy (VBool b) = b"
| "py_truthy (VInt i) = (i \<noteq> 0)"
| "py_truthy (VStr s) = (s \<noteq> [])"
| "py_truthy (VList xs) = (xs \<noteq> [])"
| "py_truthy (VDict kvs) = (kvs \<noteq> [])"
| "py_truthy (VJinja t) = True"

fun hashable :: "pyval \<Rightarrow> bool" where
  "hashable (VList xs) = False"
| "hashable (VDict kvs) = False"
| "hashable v = True"

fun is_Jinja2Loader :: "pyval \<Rightarrow> bool" where
  "is_Jinja2Loader (VJinja t) = True"
| "is_Jinja2Loader v = False"

text \<open>
  A dictionary compares its keys with \<^verbatim>\<open>==\<close>, under which \<^verbatim>\<open>True\<close> is
  \<^verbatim>\<open>1\<close> and \<^verbatim>\<open>False\<close> is \<^verbatim>\<open>0\<close>: \<open>py_key\<close> is the representative of a
  key, and two values are the same key when their representatives are equal.
\<close>

fun py_key :: "pyval \<Rightarrow> pyval" where
  "py_key (VBool b) = VInt (if b then 1 else 0)"
| "py_key v = v"

definition key_eq :: "pyval \<Rightarrow> pyval \<Rightarrow> bool" where
  "key_eq a b = (py_key a = py_key b)"

text \<open>No two entries of a dictionary have the same key.\<close>

definition distinct_keys :: "(pyval \<times> 'v) list \<Rightarrow> bool" where
  "distinct_keys d = distinct (map (\<lambda>p. py_key (fst p)) d)"

text \<open>The value stored under a key.\<close>

fun dict_lookup :: "(pyval \<times> 'v) list \<Rightarrow> pyval \<Rightarrow> 'v option" where
  "dict_lookup [] k = None"
| "dict_lookup ((k', v') # d) k = (if key_eq k' k then Some v' else dict_lookup d k)"

text \<open>
  \<^verbatim>\<open>d[k] = v\<close>: an entry with the same key keeps its place and its key object
  and takes the new value; a new key goes last.
\<close>

fun dict_set :: "(pyval \<times> 'v) list \<Rightarrow> pyval \<Rightarrow> 'v \<Rightarrow> (pyval \<times> 'v) list" where
  "dict_set [] k v = [(k, v)]"
| "dict_set ((k', v') # d) k v =
     (if key_eq k' k then (k', v) # d else (k', v') # dict_set d k v)"

text \<open>\<^verbatim>\<open>d.get(k, default)\<close>; an unhashable key raises \<^verbatim>\<open>TypeError\<close>.\<close>

definition dict_get :: "dict \<Rightarrow> pyval \<Rightarrow> pyval \<Rightarrow> error + pyval" where
  "dict_get d k dflt =
     (if \<not> hashable k then Inl TypeError
      else case dict_lookup d k of None \<Rightarrow> Inr dflt | Some v \<Rightarrow> Inr v)"

text \<open>
  \<^verbatim>\<open>d.update(other)\<close>. A dictionary is merged key by key. Any other argument
  is read as a sequence of key/value pairs: each element must itself be a sequence
  of length two (a list, a string of two characters, or a dictionary of two keys,
  which yields its keys).
\<close>

fun update_pair :: "pyval \<Rightarrow> error + (pyval \<times> pyval)" where
  "update_pair (VList xs) = (case xs of [k, v] \<Rightarrow> Inr (k, v) | _ \<Rightarrow> Inl ValueError)"
| "update_pair (VStr s) = (case s of [a, b] \<Rightarrow> Inr (VStr [a], VStr [b]) | _ \<Rightarrow> Inl ValueError)"
| "update_pair (VDict kvs) =
     (case kvs of [(k1, v1), (k2, v2)] \<Rightarrow> Inr (k1, k2) | _ \<Rightarrow> Inl ValueError)"
| "update_pair v = Inl TypeError"

fun update_pairs :: "dict \<Rightarrow> pyval list \<Rightarrow> error + dict" where
  "update_pairs d [] = Inr d"
| "update_pairs d (x # xs) =
     (case update_pair x of
        Inl e \<Rightarrow> Inl e
      | Inr (k, v) \<Rightarrow> if hashable k then update_pairs (dict_set d k v) xs else Inl TypeError)"

fun dict_merge :: "(pyval \<times> 'v) list \<Rightarrow> (pyval \<times> 'v) list \<Rightarrow> (pyval \<times> 'v) list" where
  "dict_merge d [] = d"
| "dict_merge d ((k, v) # other) = dict_merge (dict_set d k v) other"

fun dict_update :: "dict \<Rightarrow> pyval \<Rightarrow> error + dict" where
  "dict_update d (VDict other) = Inr (dict_merge d other)"
| "dict_update d (VList xs) = update_pairs d xs"
| "dict_update d (VStr s) = update_pairs d (map (\<lambda>c. VStr [c]) s)"
| "dict_update d v = Inl TypeError"

text \<open>\<^verbatim>\<open>s.split(sep)\<close> with a separator of one character.\<close>

fun split_on :: "char \<Rightarrow> string \<Rightarrow> string list" where
  "split_on c [] = [[]]"
| "split_on c (x # xs) =
     (if x = c then [] # split_on c xs
      else case split_on c xs of [] \<Rightarrow> [[x]] | w # ws \<Rightarrow> (x # w) # ws)"

subsection \<open>Version normalisation (lines 70-73)\<close>

text \<open>
  \<^verbatim>\<open>re.sub(r"(.*)-(?:SNAPSHOT|BETA).*", r"\g<1>.preview", version)\<close>.
  The matcher below is the backtracking search of the regular expression engine for
  this one pattern. A dot matches every character but the newline, so \<open>dot_star\<close>
  is the longest stretch a greedy \<^verbatim>\<open>.*\<close> can take; the group then gives
  characters back one at a time (\<open>backtrack\<close>) until the marker follows it, and the
  final \<^verbatim>\<open>.*\<close> runs to the end of the line. \<open>re_sub_preview\<close> replaces every
  match from left to right and copies the characters where no match starts.
\<close>

definition newline :: char where
  "newline = CHR 0x0A"

definition dot_star :: "string \<Rightarrow> nat" where
  "dot_star s = length (takeWhile (\<lambda>c. c \<noteq> newline) s)"

definition marker_at :: "string \<Rightarrow> nat option" where
  "marker_at s =
     (if take 9 s = ''-SNAPSHOT'' then Some 9
      else if take 5 s = ''-BETA'' then Some 5
      else None)"

fun backtrack :: "string \<Rightarrow> nat \<Rightarrow> (nat \<times> nat) option" where
  "backtrack s 0 = (case marker_at s of None \<Rightarrow> None | Some m \<Rightarrow> Some (0, m))"
| "backtrack s (Suc k) =
     (case marker_at (drop (Suc k) s) of None \<Rightarrow> backtrack s k | Some m \<Rightarrow> Some (Suc k, m))"

definition match_here :: "string \<Rightarrow> (string \<times> string) option" where
  "match_here s =
     (case backtrack s (dot_star s) of
        None \<Rightarrow> None
      | Some (k, m) \<Rightarrow>
          let rest = drop (k + m) s
          in Some (take k s, drop (dot_star rest) rest))"

function re_sub_preview :: "string \<Rightarrow> string" where
  "re_sub_preview [] = []"
| "re_sub_preview (c # cs) =
     (case match_here (c # cs) of
        None \<Rightarrow> c # re_sub_preview cs
      | Some (g, rest) \<Rightarrow> g @ ''.preview'' @ re_sub_preview rest)"
  by pat_completeness auto
termination
proof (relation "measure length")
  show "wf (measure length)" by simp
next
  fix c :: char and cs :: string
  show "(cs, c # cs) \<in> measure length" by simp
next
  fix c :: char and cs x2 g rest
  assume "match_here (c # cs) = Some x2" and "(g, rest) = x2"
  then obtain k m where
    r: "rest = drop (dot_star (drop (k + m) (c # cs))) (drop (k + m) (c # cs))" and
    b: "backtrack (c # cs) (dot_star (c # cs)) = Some (k, m)"
    by (auto simp: match_here_def Let_def split: option.splits prod.splits)
  have pos: "backtrack s n = Some (k, m) \<Longrightarrow> 0 < m" for s n
    by (induction n) (auto simp: marker_at_def split: option.splits if_splits)
  have "0 < m" using b by (rule pos)
  show "(rest, c # cs) \<in> measure length"
    using r \<open>0 < m\<close> by simp
qed

text \<open>A string holds \<^verbatim>\<open>-SNAPSHOT\<close> or \<^verbatim>\<open>-BETA\<close> somewhere.\<close>

fun has_marker :: "string \<Rightarrow> bool" where
  "has_marker [] = False"
| "has_marker (c # cs) = (marker_at (c # cs) \<noteq> None \<or> has_marker cs)"

subsection \<open>The plugin metadata store (lines 62-93 and 103-128)\<close>

text \<open>
  The descriptors of \<^verbatim>\<open>plugins_list\<close> are dictionary objects, changed in place
  and shared by reference. An object is named by its position in the list (the
  objects of the list are taken to be distinct); the store keeps the objects and the
  dictionary from alias to object.
\<close>

record plugin_store =
  objects :: "dict list"
  plugins_dict :: "(pyval \<times> nat) list"


text \<open>Lines 75-79: the values of \<^verbatim>\<open>longName\<close> and \<^verbatim>\<open>shortName\<close> that are not \<^verbatim>\<open>None\<close>.\<close>

definition aliases_of :: "dict \<Rightarrow> pyval list" where
  "aliases_of plugin_info =
     concat (map (\<lambda>key. case dict_lookup plugin_info (VStr key) of
                           None \<Rightarrow> []
                         | Some v \<Rightarrow> if v = VNone then [] else [v])
                 [''longName'', ''shortName''])"

text \<open>Lines 81-83: every alias is bound to the object \<open>r\<close> itself.\<close>

fun alias_dict :: "pyval list \<Rightarrow> nat \<Rightarrow> (pyval \<times> nat) list \<Rightarrow> error + (pyval \<times> nat) list" where
  "alias_dict [] r d = Inr d"
| "alias_dict (name # names) r d =
     (if hashable name then alias_dict names r (dict_set d name r) else Inl TypeError)"

text \<open>
  \<^verbatim>\<open>mutate_plugin_info\<close> for the object at \<open>r\<close>: the new contents of the object
  and the dictionary it returns. \<^verbatim>\<open>re.sub\<close> raises \<^verbatim>\<open>TypeError\<close> on a version
  that is not a string.
\<close>

definition mutate_plugin_info :: "nat \<Rightarrow> dict \<Rightarrow> error + (dict \<times> (pyval \<times> nat) list)" where
  "mutate_plugin_info r plugin_info =
     (case (case dict_lookup plugin_info (VStr ''version'') of None \<Rightarrow> VStr ''0'' | Some v \<Rightarrow> v) of
        VStr version \<Rightarrow>
          let plugin_info' = dict_set plugin_info (VStr ''version'') (VStr (re_sub_preview version))
          in (case alias_dict (aliases_of plugin_info') r [] of
                Inl e \<Rightarrow> Inl e
              | Inr plugin_info_dict \<Rightarrow> Inr (plugin_info', plugin_info_dict))
      | _ \<Rightarrow> Inl TypeError)"

text \<open>Line 87: the list comprehension, \<open>r\<close> being the position of the head.\<close>

fun mutate_all :: "nat \<Rightarrow> dict list \<Rightarrow> error + (dict \<times> (pyval \<times> nat) list) list" where
  "mutate_all r [] = Inr []"
| "mutate_all r (v # vs) =
     (case mutate_plugin_info r v of
        Inl e \<Rightarrow> Inl e
      | Inr x \<Rightarrow> (case mutate_all (Suc r) vs of Inl e \<Rightarrow> Inl e | Inr xs \<Rightarrow> Inr (x # xs)))"

definition get_plugins_info_dict :: "dict list \<Rightarrow> error + plugin_store" where
  "get_plugins_info_dict plugins_list =
     (case mutate_all 0 plugins_list of
        Inl e \<Rightarrow> Inl e
      | Inr list_of_dicts \<Rightarrow>
          Inr \<lparr>objects = map fst list_of_dicts,
               plugins_dict = foldl dict_merge [] (map snd list_of_dicts)\<rparr>)"

text \<open>Lines 49-52 of the constructor.\<close>

definition init_plugins_dict :: "dict list option \<Rightarrow> error + plugin_store" where
  "init_plugins_dict plugins_list =
     (case plugins_list of
        None \<Rightarrow> Inr \<lparr>objects = [], plugins_dict = []\<rparr>
      | Some l \<Rightarrow> get_plugins_info_dict l)"





text \<open>Two descriptors that share their short name.\<close>

definition git_plugin :: dict where
  "git_plugin =
     [(VStr ''longName'', VStr ''Git plugin''), (VStr ''shortName'', VStr ''git''),
      (VStr ''version'', VStr ''1.2-SNAPSHOT'')]"




subsection \<open>Generators, entry points and the state of the registry\<close>

text \<open>
  A generator is a function of some module. Its signature is the names of its
  parameters as \<^verbatim>\<open>inspect.getfullargspec\<close> lists them: \<open>gen_args\<close> are the
  parameters that can be given by position or by keyword (the field \<^verbatim>\<open>args\<close>),
  \<open>gen_kwonlyargs\<close> the keyword-only parameters declared after a \<^verbatim>\<open>*\<close> (the field
  \<^verbatim>\<open>kwonlyargs\<close>; Python 2 has none). What the call does to the XML tree is outside
  the registry, so the body of a generator is whether it returns or raises on the
  arguments it receives: the registry, the parent element, the data and the keyword
  arguments. A call is recorded in the trace of events. The parent XML element and
  the registry are references.
\<close>

type_synonym xml_ref = nat

type_synonym registry_ref = nat

type_synonym kwargs = "(string \<times> pyval) list"

record generator =
  gen_args :: "string list"
  gen_kwonlyargs :: "string list"
  gen_raises :: "registry_ref \<Rightarrow> xml_ref \<Rightarrow> pyval \<Rightarrow> kwargs \<Rightarrow> error option"

record module_function =
  func_name :: string
  func_doc :: "string option"
  func_gen :: generator

text \<open>
  An entry point of the group \<^verbatim>\<open>jenkins_jobs.modules\<close>, with what loading it
  yields: the \<^verbatim>\<open>component_list_type\<close> of its class and the functions of its module
  in the order of \<^verbatim>\<open>dir\<close>. \<open>ep_id\<close> is the identity of the object.
\<close>

record entry_point =
  ep_id :: nat
  ep_module_name :: string
  ep_component_list_type :: string
  ep_module_functions :: "module_function list"

text \<open>
  What \<^verbatim>\<open>dispatch\<close> reads and never writes: the instance itself
  (\<^verbatim>\<open>self\<close>), its attributes set by the constructor and by
  \<^verbatim>\<open>set_parser_data\<close>, the formatter \<^verbatim>\<open>deep_format\<close> and the entry points
  registered for a group.
\<close>

record env =
  self :: registry_ref
  modules_by_component_type :: "string \<rightharpoonup> entry_point"
  parser_data :: "string \<rightharpoonup> dict"
  allow_empty_variables :: bool
  deep_format :: "pyval \<Rightarrow> dict \<Rightarrow> bool \<Rightarrow> error + pyval"
  iter_entry_points :: "string \<Rightarrow> (string \<times> generator) list"

text \<open>
  The messages logged at the levels error and warning, and the calls of generators
  (debug and info messages are left out). A call is the name under which the
  generator was found, its three positional arguments and its keyword arguments.
\<close>

datatype event =
    LogError pyval pyval
  | LogWarning pyval string
  | Invoke pyval registry_ref xml_ref pyval kwargs

text \<open>
  What \<^verbatim>\<open>dispatch\<close> writes. \<open>entry_points_cache\<close> and \<open>component_type_cache\<close>
  are attributes of the class (lines 39-40), shared by every instance of the process;
  \<open>masked_warned\<close> is an attribute of the instance (line 47).
\<close>

record state =
  entry_points_cache :: "string \<rightharpoonup> (string \<rightharpoonup> generator)"
  component_type_cache :: "nat \<rightharpoonup> string"
  masked_warned :: "pyval set"
  events :: "event list"

text \<open>The state of a process that has loaded the module and logged nothing.\<close>

definition initial_state :: state where
  "initial_state =
     \<lparr>entry_points_cache = Map.empty, component_type_cache = Map.empty,
      masked_warned = {}, events = []\<rparr>"

text \<open>
  Line 47 of the constructor, for a further instance in a running process: the new
  instance has no name warned; the attributes of the class and the log stay.
\<close>

definition new_instance :: "state \<Rightarrow> state" where
  "new_instance st = st\<lparr>masked_warned := {}\<rparr>"

text \<open>Lines 95-101.\<close>

definition filter_kwargs :: "generator \<Rightarrow> kwargs \<Rightarrow> kwargs" where
  "filter_kwargs func kwargs = filter (\<lambda>(name, v). name \<in> set (gen_args func)) kwargs"

text \<open>Lines 146-155.\<close>

definition get_component_list_type :: "entry_point \<Rightarrow> state \<Rightarrow> string \<times> state" where
  "get_component_list_type entry_point st =
     (case component_type_cache st (ep_id entry_point) of
        Some t \<Rightarrow> (t, st)
      | None \<Rightarrow>
          (ep_component_list_type entry_point,
           st\<lparr>component_type_cache :=
                (component_type_cache st)(ep_id entry_point \<mapsto> ep_component_list_type entry_point)\<rparr>))"

subsection \<open>Name and data of a component (lines 189-215)\<close>

text \<open>Lines 193-195: \<^verbatim>\<open>template_data\<close>, then \<^verbatim>\<open>job_data or {}\<close> over it.\<close>

definition make_paramdict :: "pyval \<Rightarrow> pyval \<Rightarrow> error + dict" where
  "make_paramdict template_data job_data =
     (case dict_update [] template_data of
        Inl e \<Rightarrow> Inl e
      | Inr paramdict \<Rightarrow>
          dict_update paramdict (if py_truthy job_data then job_data else VDict []))"

definition extract_component ::
  "env \<Rightarrow> pyval \<Rightarrow> pyval \<Rightarrow> pyval \<Rightarrow> state \<Rightarrow> (error + pyval \<times> pyval) \<times> state" where
  "extract_component env component template_data job_data st =
     (case component of
        VDict items \<Rightarrow>
          (case items of
             [] \<Rightarrow> (Inl StopIteration, st)
           | (name, component_data) # others \<Rightarrow>
               if py_truthy template_data \<or> is_Jinja2Loader component_data then
                 (case make_paramdict template_data job_data of
                    Inl e \<Rightarrow> (Inl e, st)
                  | Inr paramdict \<Rightarrow>
                      (case deep_format env component_data paramdict (allow_empty_variables env) of
                         Inl e \<Rightarrow> (Inl e, st\<lparr>events := events st @ [LogError name component_data]\<rparr>)
                       | Inr formatted \<Rightarrow> (Inr (name, formatted), st)))
               else (Inr (name, component_data), st))
      | _ \<Rightarrow> (Inr (component, VDict []), st))"

subsection \<open>The table of entry points (lines 217-286)\<close>

text \<open>
  Lines 234-249: the name a docstring declares. A function without docstring
  (\<^verbatim>\<open>AttributeError\<close>), with a first line that does not start with \<^verbatim>\<open>yaml:\<close>,
  or with nothing after the first space (\<^verbatim>\<open>IndexError\<close>) is skipped.
\<close>

definition entry_point_name :: "string option \<Rightarrow> string option" where
  "entry_point_name doc =
     (case doc of
        None \<Rightarrow> None
      | Some d \<Rightarrow>
          (case split_on newline d of
             [] \<Rightarrow> None
           | first # lines \<Rightarrow>
               if take 5 first \<noteq> ''yaml:'' then None
               else (case split_on (CHR '' '') first of
                       w0 # ep_name # ws \<Rightarrow> Some ep_name
                     | _ \<Rightarrow> None)))"

definition auto_entry_points :: "entry_point \<Rightarrow> (string \<times> generator) list" where
  "auto_entry_points entry_point =
     concat (map (\<lambda>f. case entry_point_name (func_doc f) of
                         None \<Rightarrow> []
                       | Some ep_name \<Rightarrow> [(ep_name, func_gen f)])
                 (ep_module_functions entry_point))"

definition module_eps :: "env \<Rightarrow> entry_point \<Rightarrow> string \<Rightarrow> (string \<times> generator) list" where
  "module_eps env entry_point component_list_type =
     auto_entry_points entry_point @ iter_entry_points env (''jenkins_jobs.'' @ component_list_type)"

text \<open>Lines 273-282; the message names the component being dispatched.\<close>

fun collect_eps ::
  "(string \<times> generator) list \<Rightarrow> (string \<rightharpoonup> generator) \<Rightarrow> string \<Rightarrow> pyval \<Rightarrow>
   error + (string \<rightharpoonup> generator)" where
  "collect_eps [] eps component_type name = Inr eps"
| "collect_eps ((ep_name, func) # rest) eps component_type name =
     (case eps ep_name of
        Some g \<Rightarrow> Inl (JenkinsJobsException (Duplicate_entry_point component_type name))
      | None \<Rightarrow> collect_eps rest (eps(ep_name \<mapsto> func)) component_type name)"

definition get_entry_points ::
  "env \<Rightarrow> entry_point \<Rightarrow> string \<Rightarrow> string \<Rightarrow> pyval \<Rightarrow> state \<Rightarrow>
   (error + (string \<rightharpoonup> generator)) \<times> state" where
  "get_entry_points env entry_point component_type component_list_type name st =
     (case entry_points_cache st component_list_type of
        Some eps \<Rightarrow> (Inr eps, st)
      | None \<Rightarrow>
          (case collect_eps (module_eps env entry_point component_list_type) Map.empty
                  component_type name of
             Inl e \<Rightarrow> (Inl e, st)
           | Inr eps \<Rightarrow>
               (Inr eps,
                st\<lparr>entry_points_cache := (entry_points_cache st)(component_list_type \<mapsto> eps)\<rparr>)))"

subsection \<open>Macro or generator (lines 288-314)\<close>

text \<open>Line 289: \<^verbatim>\<open>self.parser_data.get(component_type, {}).get(name)\<close>.\<close>

definition lookup_macro :: "env \<Rightarrow> string \<Rightarrow> pyval \<Rightarrow> error + pyval" where
  "lookup_macro env component_type name =
     dict_get (case parser_data env component_type of None \<Rightarrow> [] | Some macros \<Rightarrow> macros)
       name VNone"

text \<open>\<^verbatim>\<open>eps[name]\<close> and \<^verbatim>\<open>name in eps\<close>: the keys of the table are strings.\<close>

definition eps_lookup :: "(string \<rightharpoonup> generator) \<Rightarrow> pyval \<Rightarrow> generator option" where
  "eps_lookup eps name = (case name of VStr s \<Rightarrow> eps s | _ \<Rightarrow> None)"

text \<open>\<^verbatim>\<open>component[key]\<close> for a string key, and the values a \<^verbatim>\<open>for\<close> loop visits.\<close>

fun py_getitem :: "pyval \<Rightarrow> pyval \<Rightarrow> error + pyval" where
  "py_getitem (VDict kvs) key =
     (case dict_lookup kvs key of None \<Rightarrow> Inl (KeyError key) | Some v \<Rightarrow> Inr v)"
| "py_getitem v key = Inl TypeError"

fun py_iter :: "pyval \<Rightarrow> error + pyval list" where
  "py_iter (VList xs) = Inr xs"
| "py_iter (VStr s) = Inr (map (\<lambda>c. VStr [c]) s)"
| "py_iter (VDict kvs) = Inr (map fst kvs)"
| "py_iter v = Inl TypeError"

text \<open>
  Lines 291-297. A name is added to the names warned only when it is a name of the
  table of entry points, a string.
\<close>

definition warn_masked ::
  "(string \<rightharpoonup> generator) \<Rightarrow> pyval \<Rightarrow> string \<Rightarrow> state \<Rightarrow> state" where
  "warn_masked eps name component_type st =
     (if eps_lookup eps name \<noteq> None \<and> name \<notin> masked_warned st
      then st\<lparr>masked_warned := insert name (masked_warned st),
              events := events st @ [LogWarning name component_type]\<rparr>
      else st)"

text \<open>
  What one call of \<^verbatim>\<open>dispatch\<close> decides before it recurses or calls a generator:
  it raises, it expands a macro (the components of its body, and the data of the
  invoking component), or it calls a generator.
\<close>

datatype action =
    Raise error
  | Expand "pyval list" pyval
  | Call pyval generator pyval

definition resolve_macro ::
  "env \<Rightarrow> string \<Rightarrow> string \<Rightarrow> pyval \<Rightarrow> pyval \<Rightarrow> (string \<rightharpoonup> generator) \<Rightarrow> state \<Rightarrow>
   action \<times> state" where
  "resolve_macro env component_type component_list_type name component_data eps st =
     (case lookup_macro env component_type name of
        Inl e \<Rightarrow> (Raise e, st)
      | Inr component \<Rightarrow>
          if py_truthy component then
            (let st' = warn_masked eps name component_type st
             in case py_getitem component (VStr component_list_type) of
                  Inl e \<Rightarrow> (Raise e, st')
                | Inr body \<Rightarrow>
                    (case py_iter body of
                       Inl e \<Rightarrow> (Raise e, st')
                     | Inr bs \<Rightarrow> (Expand bs component_data, st')))
          else
            (case eps_lookup eps name of
               Some func \<Rightarrow> (Call name func component_data, st)
             | None \<Rightarrow>
                 (Raise (JenkinsJobsException (Unknown_entry_point_or_macro name component_type)),
                  st)))"

text \<open>Lines 181-314 without the recursive calls and the call of the generator.\<close>

definition resolve ::
  "env \<Rightarrow> string \<Rightarrow> pyval \<Rightarrow> pyval \<Rightarrow> pyval \<Rightarrow> state \<Rightarrow> action \<times> state" where
  "resolve env component_type component template_data job_data st =
     (case modules_by_component_type env component_type of
        None \<Rightarrow> (Raise (JenkinsJobsException (Unknown_component_type component_type)), st)
      | Some entry_point \<Rightarrow>
          (case get_component_list_type entry_point st of
             (component_list_type, st1) \<Rightarrow>
               (case extract_component env component template_data job_data st1 of
                  (Inl e, st2) \<Rightarrow> (Raise e, st2)
                | (Inr (name, component_data), st2) \<Rightarrow>
                    (case get_entry_points env entry_point component_type component_list_type
                            name st2 of
                       (Inl e, st3) \<Rightarrow> (Raise e, st3)
                     | (Inr eps, st3) \<Rightarrow>
                         resolve_macro env component_type component_list_type name
                           component_data eps st3))))"

text \<open>Lines 307-309: \<^verbatim>\<open>func(self, xml_parent, component_data, **kwargs)\<close>.\<close>

datatype outcome = Returned | Raised error | Exhausted

definition call_generator ::
  "env \<Rightarrow> pyval \<Rightarrow> generator \<Rightarrow> xml_ref \<Rightarrow> pyval \<Rightarrow> pyval \<Rightarrow> state \<Rightarrow> outcome \<times> state" where
  "call_generator env name func xml_parent component_data job_data st =
     (let kwargs = filter_kwargs func [(''job_data'', job_data)];
          st' = st\<lparr>events := events st @
                   [Invoke name (self env) xml_parent component_data kwargs]\<rparr>
      in case gen_raises func (self env) xml_parent component_data kwargs of
           None \<Rightarrow> (Returned, st')
         | Some e \<Rightarrow> (Raised e, st'))"

subsection \<open>dispatch (lines 157-314)\<close>

text \<open>
  The first argument bounds the depth of the nested calls of \<^verbatim>\<open>dispatch\<close>, as
  the stack of the interpreter does; \<open>Exhausted\<close> is the outcome of a call that
  needs more. \<open>dispatch_each\<close> is the loop of lines 299-305: an exception in one
  call ends it.
\<close>

fun dispatch ::
    "nat \<Rightarrow> env \<Rightarrow> string \<Rightarrow> xml_ref \<Rightarrow> pyval \<Rightarrow> pyval \<Rightarrow> pyval \<Rightarrow> state \<Rightarrow> outcome \<times> state"
  and dispatch_each ::
    "nat \<Rightarrow> env \<Rightarrow> string \<Rightarrow> xml_ref \<Rightarrow> pyval list \<Rightarrow> pyval \<Rightarrow> pyval \<Rightarrow> state \<Rightarrow> outcome \<times> state"
where
  "dispatch 0 env component_type xml_parent component template_data job_data st =
     (Exhausted, st)"
| "dispatch (Suc n) env component_type xml_parent component template_data job_data st =
     (case resolve env component_type component template_data job_data st of
        (Raise e, st') \<Rightarrow> (Raised e, st')
      | (Expand bs component_data, st') \<Rightarrow>
          dispatch_each n env component_type xml_parent bs component_data job_data st'
      | (Call name func component_data, st') \<Rightarrow>
          call_generator env name func xml_parent component_data job_data st')"
| "dispatch_each n env component_type xml_parent [] template_data job_data st =
     (Returned, st)"
| "dispatch_each n env component_type xml_parent (b # bs) template_data job_data st =
     (case dispatch n env component_type xml_parent b template_data job_data st of
        (Returned, st') \<Rightarrow>
          dispatch_each n env component_type xml_parent bs template_data job_data st'
      | (r, st') \<Rightarrow> (r, st'))"

subsection \<open>Counting warnings\<close>

text \<open>How often the warning for a name stands in a log.\<close>

fun is_warning_for :: "pyval \<Rightarrow> event \<Rightarrow> bool" where
  "is_warning_for nm (LogWarning name component_type) = (name = nm)"
| "is_warning_for nm e = False"

definition warnings_for :: "pyval \<Rightarrow> event list \<Rightarrow> nat" where
  "warnings_for nm es = length (filter (is_warning_for nm) es)"

text \<open>
  The calls of \<^verbatim>\<open>dispatch\<close> a caller makes on one instance, one after the other,
  each with its component type, parent element, component, template data and job
  data; the caller goes on after an exception.
\<close>

type_synonym call = "string \<times> xml_ref \<times> pyval \<times> pyval \<times> pyval"

fun dispatch_calls :: "nat \<Rightarrow> env \<Rightarrow> call list \<Rightarrow> state \<Rightarrow> state" where
  "dispatch_calls n env [] st = st"
| "dispatch_calls n env ((component_type, xml_parent, component, template_data, job_data) # calls) st =
     dispatch_calls n env calls
       (snd (dispatch n env component_type xml_parent component template_data job_data st))"

text \<open>
  The warnings logged for a name, plus one while the name is not yet among the names
  warned: a quantity no step of \<^verbatim>\<open>dispatch\<close> changes.
\<close>

definition warn_potential :: "pyval \<Rightarrow> state \<Rightarrow> nat" where
  "warn_potential nm st =
     warnings_for nm (events st) + (if nm \<in> masked_warned st then 0 else 1)"

subsection \<open>A small registry, to instantiate the theorems\<close>

text \<open>
  Two component types. The module of the builders declares the generators
  \<^verbatim>\<open>build\<close> and \<^verbatim>\<open>inject\<close> (which take \<^verbatim>\<open>job_data\<close>), \<^verbatim>\<open>notify\<close>
  (which declares \<^verbatim>\<open>job_data\<close> after a \<^verbatim>\<open>*\<close>, with a default) and
  \<^verbatim>\<open>shell\<close> (which does not declare it); the macros of the builders are
  \<^verbatim>\<open>build\<close>, which masks the generator, and an empty entry for \<^verbatim>\<open>shell\<close>;
  the module of the publishers declares \<^verbatim>\<open>archive\<close>, which is registered a second
  time as an entry point of the group \<^verbatim>\<open>jenkins_jobs.publishers\<close>. The formatter
  replaces a string that names a parameter by the value of the parameter and fails
  on any other string.
\<close>

definition shell_gen :: generator where
  "shell_gen =
     \<lparr>gen_args = [''registry'', ''xml_parent'', ''data''],
      gen_kwonlyargs = [],
      gen_raises = (\<lambda>registry xml_parent data kwargs. None)\<rparr>"

definition build_gen :: generator where
  "build_gen =
     \<lparr>gen_args = [''registry'', ''xml_parent'', ''data'', ''job_data''],
      gen_kwonlyargs = [],
      gen_raises = (\<lambda>registry xml_parent data kwargs. None)\<rparr>"

definition notify_gen :: generator where
  "notify_gen =
     \<lparr>gen_args = [''registry'', ''xml_parent'', ''data''],
      gen_kwonlyargs = [''job_data''],
      gen_raises = (\<lambda>registry xml_parent data kwargs. None)\<rparr>"

definition builders_ep :: entry_point where
  "builders_ep =
     \<lparr>ep_id = 0, ep_module_name = ''jenkins_jobs.modules.builders'',
      ep_component_list_type = ''builders'',
      ep_module_functions =
        [\<lparr>func_name = ''build'', func_doc = Some ''yaml: build'', func_gen = build_gen\<rparr>,
         \<lparr>func_name = ''helper'', func_doc = None, func_gen = shell_gen\<rparr>,
         \<lparr>func_name = ''inject'', func_doc = Some ''yaml: inject'', func_gen = build_gen\<rparr>,
         \<lparr>func_name = ''notify'', func_doc = Some ''yaml: notify'', func_gen = notify_gen\<rparr>,
         \<lparr>func_name = ''shell'',
          func_doc = Some (''yaml: shell'' @ [newline] @ ''Execute a shell command.''),
          func_gen = shell_gen\<rparr>]\<rparr>"

definition publishers_ep :: entry_point where
  "publishers_ep =
     \<lparr>ep_id = 1, ep_module_name = ''jenkins_jobs.modules.publishers'',
      ep_component_list_type = ''publishers'',
      ep_module_functions =
        [\<lparr>func_name = ''archive'', func_doc = Some ''yaml: archive'', func_gen = shell_gen\<rparr>]\<rparr>"

definition example_format :: "pyval \<Rightarrow> dict \<Rightarrow> bool \<Rightarrow> error + pyval" where
  "example_format data paramdict allow_empty =
     (case data of
        VStr s \<Rightarrow>
          (case dict_lookup paramdict (VStr s) of None \<Rightarrow> Inl (OtherError s) | Some v \<Rightarrow> Inr v)
      | _ \<Rightarrow> Inr data)"

definition example_macros :: dict where
  "example_macros =
     [(VStr ''build'',
       VDict [(VStr ''name'', VStr ''build''),
              (VStr ''builders'', VList [VStr ''shell'', VDict [(VStr ''shell'', VStr ''x'')]])]),
      (VStr ''shell'', VDict [])]"

definition example_env :: env where
  "example_env =
     \<lparr>self = 0,
      modules_by_component_type =
        [''builder'' \<mapsto> builders_ep, ''publisher'' \<mapsto> publishers_ep],
      parser_data = [''builder'' \<mapsto> example_macros],
      allow_empty_variables = False,
      deep_format = example_format,
      iter_entry_points =
        (\<lambda>group. if group = ''jenkins_jobs.publishers'' then [(''archive'', shell_gen)] else [])\<rparr>"

text \<open>
  The states of the first dispatch of a builder: after the list type is cached, and
  after the table of entry points is.
\<close>

definition cached_state :: state where
  "cached_state = initial_state\<lparr>component_type_cache := [0 \<mapsto> ''builders'']\<rparr>"

definition builders_eps :: "string \<rightharpoonup> generator" where
  "builders_eps =
     [''build'' \<mapsto> build_gen, ''inject'' \<mapsto> build_gen, ''notify'' \<mapsto> notify_gen,
      ''shell'' \<mapsto> shell_gen]"

definition built_state :: state where
  "built_state = cached_state\<lparr>entry_points_cache := [''builders'' \<mapsto> builders_eps]\<rparr>"

text \<open>The state after the macro \<^verbatim>\<open>build\<close> was found to mask the generator.\<close>

definition masked_state :: state where
  "masked_state = built_state\<lparr>masked_warned := {VStr ''build''},
      events := [LogWarning (VStr ''build'') ''builder'']\<rparr>"

text \<open>The state after the list type of the publishers is cached.\<close>

definition publishers_cached_state :: state where
  "publishers_cached_state = initial_state\<lparr>component_type_cache := [1 \<mapsto> ''publishers'']\<rparr>"

text \<open>A second instance of the registry, with the same attributes.\<close>

definition second_env :: env where
  "second_env = example_env\<lparr>self := 1\<rparr>"

section \<open>Properties\<close>

subsection \<open>Auxiliary facts\<close>

lemmas example_defs =
  example_env_def example_macros_def example_format_def builders_ep_def publishers_ep_def
  build_gen_def shell_gen_def notify_gen_def cached_state_def builders_eps_def built_state_def
  second_env_def key_eq_def

lemmas dispatch_defs =
  resolve_def resolve_macro_def warn_masked_def call_generator_def filter_kwargs_def
  get_component_list_type_def extract_component_def make_paramdict_def get_entry_points_def
  module_eps_def auto_entry_points_def entry_point_name_def lookup_macro_def eps_lookup_def
  dict_get_def initial_state_def newline_def key_eq_def

lemma key_eq_refl: "key_eq k k"
  by (simp add: key_eq_def)

lemma key_eq_VStr [simp]: "key_eq (VStr s) k = (k = VStr s)" "key_eq k (VStr s) = (k = VStr s)"
  by (cases k; auto simp: key_eq_def)+

lemma dict_lookup_dict_set:
  "dict_lookup (dict_set d k v) k' = (if key_eq k k' then Some v else dict_lookup d k')"
  by (induction d) (auto simp: key_eq_def)

lemma dict_lookup_None:
  "(dict_lookup d k = None) = (py_key k \<notin> set (map (\<lambda>p. py_key (fst p)) d))"
proof (induction d)
  case Nil
  show ?case by simp
next
  case (Cons p d)
  obtain k' v' where p: "p = (k', v')" by (cases p)
  show ?case
  proof (cases "key_eq k' k")
    case True
    with p show ?thesis by (simp add: key_eq_def)
  next
    case False
    with p Cons.IH show ?thesis by (auto simp: key_eq_def)
  qed
qed

lemma dict_lookup_dict_merge:
  "distinct_keys other \<Longrightarrow>
   dict_lookup (dict_merge d other) k =
     (case dict_lookup other k of Some v \<Rightarrow> Some v | None \<Rightarrow> dict_lookup d k)"
proof (induction other arbitrary: d)
  case Nil
  show ?case by simp
next
  case (Cons p other)
  obtain k0 v0 where p: "p = (k0, v0)" by (cases p)
  from Cons.prems p have nk: "dict_lookup other k0 = None" and dist: "distinct_keys other"
    by (simp_all add: distinct_keys_def dict_lookup_None)
  show ?case
  proof (cases "key_eq k0 k")
    case True
    then have "py_key k = py_key k0" by (simp add: key_eq_def)
    with nk have "dict_lookup other k = None" by (simp add: dict_lookup_None)
    with True p Cons.IH[OF dist] show ?thesis by (simp add: dict_lookup_dict_set)
  next
    case False
    with p Cons.IH[OF dist] show ?thesis
      by (simp add: dict_lookup_dict_set split: option.split)
  qed
qed

lemma resolve_front:
  assumes "modules_by_component_type env ct = Some entry_point"
    and "get_component_list_type entry_point st = (clt, st1)"
    and "extract_component env component td jd st1 = (Inr (name, cd), st2)"
    and "get_entry_points env entry_point ct clt name st2 = (Inr eps, st3)"
  shows "resolve env ct component td jd st = resolve_macro env ct clt name cd eps st3"
  using assms by (simp add: resolve_def)

lemma dispatch_each_foldl:
  "dispatch_each n env ct xp bs td jd st =
     foldl (\<lambda>(r, s) b. if r = Returned then dispatch n env ct xp b td jd s else (r, s))
       (Returned, st) bs"
proof -
  let ?step = "\<lambda>(r, s) b. if r = Returned then dispatch n env ct xp b td jd s else (r, s)"
  have stuck: "r \<noteq> Returned \<Longrightarrow> foldl ?step (r, s) cs = (r, s)" for r s cs
    by (induction cs) auto
  show ?thesis
  proof (induction bs arbitrary: st)
    case Nil
    show ?case by simp
  next
    case (Cons b bs)
    obtain r s where d: "dispatch n env ct xp b td jd st = (r, s)"
      by (cases "dispatch n env ct xp b td jd st")
    show ?case
    proof (cases "r = Returned")
      case True
      with d Cons show ?thesis by simp
    next
      case False
      with d stuck[of r s bs] show ?thesis by (cases r) auto
    qed
  qed
qed

subsection \<open>A mapping with more than one key\<close>



subsection \<open>A failure of the formatter\<close>

text \<open>
  Claim C6. When \<^verbatim>\<open>deep_format\<close> raises on the data of a component,
  \<^verbatim>\<open>dispatch\<close> logs the name of the component and the data as they were before the
  substitution, and raises the exception of the formatter itself: the outcome is
  that exception, and the state is the state after the list type was resolved with
  the one log record added.
\<close>

theorem format_failure_reraised:
  assumes "modules_by_component_type env ct = Some entry_point"
    and "get_component_list_type entry_point st = (clt, st1)"
    and "py_truthy td \<or> is_Jinja2Loader data"
    and "make_paramdict td jd = Inr paramdict"
    and "deep_format env data paramdict (allow_empty_variables env) = Inl e"
  shows "dispatch (Suc n) env ct xp (VDict ((name, data) # others)) td jd st =
           (Raised e, st1\<lparr>events := events st1 @ [LogError name data]\<rparr>)"
  using assms by (auto simp add: resolve_def extract_component_def)

theorem format_failure_reraised_witness:
  "modules_by_component_type example_env ''builder'' = Some builders_ep
   \<and> get_component_list_type builders_ep initial_state = (''builders'', cached_state)
   \<and> (py_truthy (VDict [(VStr ''x'', VInt 1)]) \<or> is_Jinja2Loader (VStr ''y''))
   \<and> make_paramdict (VDict [(VStr ''x'', VInt 1)]) VNone = Inr [(VStr ''x'', VInt 1)]
   \<and> deep_format example_env (VStr ''y'') [(VStr ''x'', VInt 1)] (allow_empty_variables example_env)
       = Inl (OtherError ''y'')
   \<and> dispatch (Suc 0) example_env ''builder'' 7 (VDict [(VStr ''shell'', VStr ''y'')])
         (VDict [(VStr ''x'', VInt 1)]) VNone initial_state =
       (Raised (OtherError ''y''),
        cached_state\<lparr>events := events cached_state @ [LogError (VStr ''shell'') (VStr ''y'')]\<rparr>)"
proof -
  have h1: "modules_by_component_type example_env ''builder'' = Some builders_ep"
    by (simp add: example_defs)
  have h2: "get_component_list_type builders_ep initial_state = (''builders'', cached_state)"
    by (simp add: example_defs dispatch_defs)
  have h3: "py_truthy (VDict [(VStr ''x'', VInt 1)]) \<or> is_Jinja2Loader (VStr ''y'')"
    by simp
  have h4: "make_paramdict (VDict [(VStr ''x'', VInt 1)]) VNone = Inr [(VStr ''x'', VInt 1)]"
    by (simp add: make_paramdict_def)
  have h5: "deep_format example_env (VStr ''y'') [(VStr ''x'', VInt 1)]
              (allow_empty_variables example_env) = Inl (OtherError ''y'')"
    by (simp add: example_defs)
  from format_failure_reraised [OF h1 h2 h3 h4 h5] h1 h2 h3 h4 h5 show ?thesis by blast
qed

subsection \<open>The call of a generator\<close>

text \<open>
  Claim C4, as the code has it. When the name is no macro and is a generator of the
  table, \<^verbatim>\<open>dispatch\<close> calls the generator with three positional arguments, the
  registry itself, the parent element and the data of the component, and with the
  keyword argument \<^verbatim>\<open>job_data\<close> exactly when \<^verbatim>\<open>job_data\<close> is among the
  parameters of the generator that can be given by position or by keyword
  (\<^verbatim>\<open>getargspec(func).args\<close>); otherwise it passes no keyword argument. The
  outcome is that of the generator.
\<close>

theorem generator_call_convention:
  assumes "modules_by_component_type env ct = Some entry_point"
    and "get_component_list_type entry_point st = (clt, st1)"
    and "extract_component env component td jd st1 = (Inr (name, cd), st2)"
    and "get_entry_points env entry_point ct clt name st2 = (Inr eps, st3)"
    and "lookup_macro env ct name = Inr VNone"
    and "eps_lookup eps name = Some func"
  shows "dispatch (Suc n) env ct xp component td jd st =
           (case gen_raises func (self env) xp cd
                   (if ''job_data'' \<in> set (gen_args func) then [(''job_data'', jd)] else []) of
              None \<Rightarrow> Returned
            | Some e \<Rightarrow> Raised e,
            st3\<lparr>events := events st3 @
               [Invoke name (self env) xp cd
                  (if ''job_data'' \<in> set (gen_args func) then [(''job_data'', jd)] else [])]\<rparr>)"
  using assms(5-6) resolve_front[OF assms(1-4)]
  by (auto simp add: resolve_macro_def call_generator_def filter_kwargs_def split: option.splits)

text \<open>
  The code reads the field \<^verbatim>\<open>args\<close> alone. A generator that declares
  \<^verbatim>\<open>job_data\<close> as a keyword-only parameter has it in its signature and is
  called without it, so the claim as stated, if and only if the signature accepts a
  parameter of that name, does not hold.
\<close>

theorem keyword_only_job_data_not_passed:
  "''job_data'' \<in> set (gen_kwonlyargs notify_gen)
   \<and> eps_lookup builders_eps (VStr ''notify'') = Some notify_gen
   \<and> dispatch (Suc 0) example_env ''builder'' 7 (VStr ''notify'') (VDict [])
         (VDict [(VStr ''j'', VInt 1)]) initial_state =
       (Returned,
        built_state\<lparr>events := events built_state @
           [Invoke (VStr ''notify'') 0 7 (VDict []) []]\<rparr>)"
  by (simp add: example_defs dispatch_defs)

theorem generator_call_convention_witness:
  "modules_by_component_type example_env ''builder'' = Some builders_ep
   \<and> get_component_list_type builders_ep initial_state = (''builders'', cached_state)
   \<and> extract_component example_env (VDict [(VStr ''inject'', VStr ''p'')]) (VDict []) (VDict [(VStr ''j'', VInt 1)]) cached_state =
       (Inr (VStr ''inject'', VStr ''p''), cached_state)
   \<and> get_entry_points example_env builders_ep ''builder'' ''builders'' (VStr ''inject'') cached_state =
       (Inr builders_eps, built_state)
   \<and> lookup_macro example_env ''builder'' (VStr ''inject'') = Inr VNone
   \<and> eps_lookup builders_eps (VStr ''inject'') = Some build_gen
   \<and> dispatch (Suc 0) example_env ''builder'' 7 (VDict [(VStr ''inject'', VStr ''p'')]) (VDict [])
         (VDict [(VStr ''j'', VInt 1)]) initial_state =
       (Returned,
        built_state\<lparr>events := events built_state @
           [Invoke (VStr ''inject'') 0 7 (VStr ''p'') [(''job_data'', VDict [(VStr ''j'', VInt 1)])]]\<rparr>)"
proof -
  have h1: "modules_by_component_type example_env ''builder'' = Some builders_ep"
    by (simp add: example_defs)
  have h2: "get_component_list_type builders_ep initial_state = (''builders'', cached_state)"
    by (simp add: example_defs dispatch_defs)
  have h3: "extract_component example_env (VDict [(VStr ''inject'', VStr ''p'')]) (VDict [])
              (VDict [(VStr ''j'', VInt 1)]) cached_state =
            (Inr (VStr ''inject'', VStr ''p''), cached_state)"
    by (simp add: extract_component_def)
  have h4: "get_entry_points example_env builders_ep ''builder'' ''builders'' (VStr ''inject'')
              cached_state = (Inr builders_eps, built_state)"
    by (simp add: example_defs dispatch_defs)
  have h5: "lookup_macro example_env ''builder'' (VStr ''inject'') = Inr VNone"
    by (simp add: example_defs dispatch_defs)
  have h6: "eps_lookup builders_eps (VStr ''inject'') = Some build_gen"
    by (simp add: example_defs dispatch_defs)
  have g: "gen_raises build_gen 0 7 (VStr ''p'') [(''job_data'', VDict [(VStr ''j'', VInt 1)])] = None"
      "self example_env = 0"
      "''job_data'' \<in> set (gen_args build_gen)"
    by (simp_all add: build_gen_def example_env_def)
  from generator_call_convention [OF h1 h2 h3 h4 h5 h6, of 0 7] g
  have "dispatch (Suc 0) example_env ''builder'' 7 (VDict [(VStr ''inject'', VStr ''p'')]) (VDict [])
         (VDict [(VStr ''j'', VInt 1)]) initial_state =
       (Returned,
        built_state\<lparr>events := events built_state @
           [Invoke (VStr ''inject'') 0 7 (VStr ''p'') [(''job_data'', VDict [(VStr ''j'', VInt 1)])]]\<rparr>)"
    by simp
  with h1 h2 h3 h4 h5 h6 show ?thesis by blast
qed

subsection \<open>An empty macro\<close>

text \<open>
  Claim C10. When the macros of the component type hold an entry for the name whose
  value is false in a condition (\<^verbatim>\<open>None\<close>, an empty dictionary), the name is no
  macro: no warning is logged, no name is added to the names warned, nothing is
  expanded. If the table of entry points has the name, its generator is called;
  otherwise the error of an unknown entry point or macro is raised.
\<close>

theorem falsy_macro_is_no_macro:
  assumes "modules_by_component_type env ct = Some entry_point"
    and "get_component_list_type entry_point st = (clt, st1)"
    and "extract_component env component td jd st1 = (Inr (name, cd), st2)"
    and "get_entry_points env entry_point ct clt name st2 = (Inr eps, st3)"
    and "parser_data env ct = Some macros"
    and "dict_lookup macros name = Some macro"
    and "hashable name"
    and "\<not> py_truthy macro"
  shows "dispatch (Suc n) env ct xp component td jd st =
           (case eps_lookup eps name of
              Some func \<Rightarrow> call_generator env name func xp cd jd st3
            | None \<Rightarrow> (Raised (JenkinsJobsException (Unknown_entry_point_or_macro name ct)), st3))
         \<and> masked_warned (snd (dispatch (Suc n) env ct xp component td jd st)) = masked_warned st3
         \<and> events (snd (dispatch (Suc n) env ct xp component td jd st)) =
           events st3 @ (case eps_lookup eps name of
                           Some func \<Rightarrow>
                             [Invoke name (self env) xp cd (filter_kwargs func [(''job_data'', jd)])]
                         | None \<Rightarrow> [])"
proof -
  have m: "lookup_macro env ct name = Inr macro"
    using assms(5-7) by (simp add: lookup_macro_def dict_get_def)
  have r: "resolve env ct component td jd st =
      (case eps_lookup eps name of
         Some func \<Rightarrow> (Call name func cd, st3)
       | None \<Rightarrow> (Raise (JenkinsJobsException (Unknown_entry_point_or_macro name ct)), st3))"
    using m assms(8) resolve_front[OF assms(1-4)] by (simp add: resolve_macro_def)
  show ?thesis
  proof (cases "eps_lookup eps name")
    case None
    with r show ?thesis by simp
  next
    case (Some func)
    with r show ?thesis by (simp add: call_generator_def Let_def split: option.split)
  qed
qed

theorem falsy_macro_is_no_macro_witness:
  "modules_by_component_type example_env ''builder'' = Some builders_ep
   \<and> get_component_list_type builders_ep initial_state = (''builders'', cached_state)
   \<and> extract_component example_env (VStr ''shell'') (VDict []) VNone cached_state =
       (Inr (VStr ''shell'', VDict []), cached_state)
   \<and> get_entry_points example_env builders_ep ''builder'' ''builders'' (VStr ''shell'') cached_state =
       (Inr builders_eps, built_state)
   \<and> parser_data example_env ''builder'' = Some example_macros
   \<and> dict_lookup example_macros (VStr ''shell'') = Some (VDict [])
   \<and> hashable (VStr ''shell'')
   \<and> \<not> py_truthy (VDict [])
   \<and> eps_lookup builders_eps (VStr ''shell'') = Some shell_gen
   \<and> dispatch (Suc 0) example_env ''builder'' 7 (VStr ''shell'') (VDict []) VNone initial_state =
       call_generator example_env (VStr ''shell'') shell_gen 7 (VDict []) VNone built_state
   \<and> masked_warned (snd (dispatch (Suc 0) example_env ''builder'' 7 (VStr ''shell'') (VDict []) VNone
        initial_state)) = masked_warned built_state
   \<and> events (snd (dispatch (Suc 0) example_env ''builder'' 7 (VStr ''shell'') (VDict []) VNone
        initial_state)) = [Invoke (VStr ''shell'') 0 7 (VDict []) []]"
proof -
  have h1: "modules_by_component_type example_env ''builder'' = Some builders_ep"
    by (simp add: example_defs)
  have h2: "get_component_list_type builders_ep initial_state = (''builders'', cached_state)"
    by (simp add: example_defs dispatch_defs)
  have h3: "extract_component example_env (VStr ''shell'') (VDict []) VNone cached_state =
       (Inr (VStr ''shell'', VDict []), cached_state)"
    by (simp add: extract_component_def)
  have h4: "get_entry_points example_env builders_ep ''builder'' ''builders'' (VStr ''shell'')
              cached_state = (Inr builders_eps, built_state)"
    by (simp add: example_defs dispatch_defs)
  have h5: "parser_data example_env ''builder'' = Some example_macros"
    by (simp add: example_defs)
  have h6: "dict_lookup example_macros (VStr ''shell'') = Some (VDict [])"
    by (simp add: example_defs)
  have h7: "hashable (VStr ''shell'')" by simp
  have h8: "\<not> py_truthy (VDict [])" by simp
  have h9: "eps_lookup builders_eps (VStr ''shell'') = Some shell_gen"
    by (simp add: example_defs dispatch_defs)
  have e: "events built_state = []" "filter_kwargs shell_gen [(''job_data'', VNone)] = []"
    by (simp_all add: example_defs dispatch_defs)
  from falsy_macro_is_no_macro [OF h1 h2 h3 h4 h5 h6 h7 h8, of 0 7] h9 e
  have "dispatch (Suc 0) example_env ''builder'' 7 (VStr ''shell'') (VDict []) VNone initial_state =
       call_generator example_env (VStr ''shell'') shell_gen 7 (VDict []) VNone built_state
   \<and> masked_warned (snd (dispatch (Suc 0) example_env ''builder'' 7 (VStr ''shell'') (VDict []) VNone
        initial_state)) = masked_warned built_state
   \<and> events (snd (dispatch (Suc 0) example_env ''builder'' 7 (VStr ''shell'') (VDict []) VNone
        initial_state)) = [Invoke (VStr ''shell'') 0 7 (VDict []) []]"
    by (simp del: dispatch.simps add: call_generator_def Let_def shell_gen_def example_env_def)
  with h1 h2 h3 h4 h5 h6 h7 h8 h9 show ?thesis by blast
qed


subsection \<open>The expansion of a macro\<close>

text \<open>
  Claim C1. When the name is a macro of the component type, \<^verbatim>\<open>dispatch\<close> calls
  itself on every component of the list under the key of the list type, from left to
  right, each call with the data of the invoking component as template data and with
  the same job data, each on the state the call before it left. An exception in one
  call ends the expansion.
\<close>

theorem macro_expansion_in_order:
  assumes "modules_by_component_type env ct = Some entry_point"
    and "get_component_list_type entry_point st = (clt, st1)"
    and "extract_component env component td jd st1 = (Inr (name, cd), st2)"
    and "get_entry_points env entry_point ct clt name st2 = (Inr eps, st3)"
    and "lookup_macro env ct name = Inr macro"
    and "py_truthy macro"
    and "py_getitem macro (VStr clt) = Inr (VList bs)"
  shows "dispatch (Suc n) env ct xp component td jd st =
           foldl (\<lambda>(r, s) b. if r = Returned then dispatch n env ct xp b cd jd s else (r, s))
             (Returned, warn_masked eps name ct st3) bs"
  using assms(5-7) resolve_front[OF assms(1-4)]
  by (simp add: resolve_macro_def Let_def dispatch_each_foldl)

theorem macro_expansion_in_order_witness:
  "modules_by_component_type example_env ''builder'' = Some builders_ep
   \<and> get_component_list_type builders_ep initial_state = (''builders'', cached_state)
   \<and> extract_component example_env (VDict [(VStr ''build'', VDict [(VStr ''x'', VInt 1)])])
        (VDict []) VNone cached_state =
       (Inr (VStr ''build'', VDict [(VStr ''x'', VInt 1)]), cached_state)
   \<and> get_entry_points example_env builders_ep ''builder'' ''builders'' (VStr ''build'') cached_state =
       (Inr builders_eps, built_state)
   \<and> lookup_macro example_env ''builder'' (VStr ''build'') =
       Inr (VDict [(VStr ''name'', VStr ''build''),
              (VStr ''builders'', VList [VStr ''shell'', VDict [(VStr ''shell'', VStr ''x'')]])])
   \<and> py_truthy (VDict [(VStr ''name'', VStr ''build''),
              (VStr ''builders'', VList [VStr ''shell'', VDict [(VStr ''shell'', VStr ''x'')]])])
   \<and> py_getitem (VDict [(VStr ''name'', VStr ''build''),
              (VStr ''builders'', VList [VStr ''shell'', VDict [(VStr ''shell'', VStr ''x'')]])])
        (VStr ''builders'') = Inr (VList [VStr ''shell'', VDict [(VStr ''shell'', VStr ''x'')]])
   \<and> dispatch (Suc (Suc 0)) example_env ''builder'' 7
        (VDict [(VStr ''build'', VDict [(VStr ''x'', VInt 1)])]) (VDict []) VNone initial_state =
       (Returned,
        masked_state\<lparr>events := events masked_state @
          [Invoke (VStr ''shell'') 0 7 (VDict []) [], Invoke (VStr ''shell'') 0 7 (VInt 1) []]\<rparr>)"
proof -
  let ?m = "VDict [(VStr ''name'', VStr ''build''),
              (VStr ''builders'', VList [VStr ''shell'', VDict [(VStr ''shell'', VStr ''x'')]])]"
  let ?cd = "VDict [(VStr ''x'', VInt 1)]"
  have h1: "modules_by_component_type example_env ''builder'' = Some builders_ep"
    by (simp add: example_defs)
  have h2: "get_component_list_type builders_ep initial_state = (''builders'', cached_state)"
    by (simp add: example_defs dispatch_defs)
  have h3: "extract_component example_env (VDict [(VStr ''build'', ?cd)])
        (VDict []) VNone cached_state = (Inr (VStr ''build'', ?cd), cached_state)"
    by (simp add: extract_component_def)
  have h4: "get_entry_points example_env builders_ep ''builder'' ''builders'' (VStr ''build'')
              cached_state = (Inr builders_eps, built_state)"
    by (simp add: example_defs dispatch_defs)
  have h5: "lookup_macro example_env ''builder'' (VStr ''build'') = Inr ?m"
    by (simp add: example_defs dispatch_defs)
  have h6: "py_truthy ?m" by simp
  have h7: "py_getitem ?m (VStr ''builders'') =
              Inr (VList [VStr ''shell'', VDict [(VStr ''shell'', VStr ''x'')]])"
    by simp
  have w: "warn_masked builders_eps (VStr ''build'') ''builder'' built_state = masked_state"
    by (simp add: masked_state_def example_defs dispatch_defs)
  have d1: "dispatch (Suc 0) example_env ''builder'' 7 (VStr ''shell'') ?cd VNone masked_state =
      (Returned, masked_state\<lparr>events := events masked_state @ [Invoke (VStr ''shell'') 0 7 (VDict []) []]\<rparr>)"
    by (simp add: masked_state_def example_defs dispatch_defs)
  have d2: "dispatch (Suc 0) example_env ''builder'' 7 (VDict [(VStr ''shell'', VStr ''x'')]) ?cd VNone
       (masked_state\<lparr>events := events masked_state @ [Invoke (VStr ''shell'') 0 7 (VDict []) []]\<rparr>) =
      (Returned, masked_state\<lparr>events := events masked_state @
          [Invoke (VStr ''shell'') 0 7 (VDict []) [], Invoke (VStr ''shell'') 0 7 (VInt 1) []]\<rparr>)"
    by (simp add: masked_state_def example_defs dispatch_defs)
  from macro_expansion_in_order [OF h1 h2 h3 h4 h5 h6 h7, of "Suc 0" 7] w d1 d2
  have "dispatch (Suc (Suc 0)) example_env ''builder'' 7
        (VDict [(VStr ''build'', ?cd)]) (VDict []) VNone initial_state =
       (Returned,
        masked_state\<lparr>events := events masked_state @
          [Invoke (VStr ''shell'') 0 7 (VDict []) [], Invoke (VStr ''shell'') 0 7 (VInt 1) []]\<rparr>)"
    by (auto simp del: dispatch.simps)
  with h1 h2 h3 h4 h5 h6 h7 show ?thesis by blast
qed


subsection \<open>Template substitution\<close>

text \<open>
  Claim C5. For a component given as a dictionary, with template data and job data
  that are dictionaries (or no job data), \<^verbatim>\<open>dispatch\<close> goes on with the result of
  the formatter exactly when the template data is not empty or the data is a deferred
  template, and with the data as it is otherwise: that value is the one looked up as
  a macro with arguments, handed to the sub-components as template data, or given to
  the generator. The parameters given to the formatter are the template data overlaid
  with the job data: under every key the value of the job data if the job data has
  the key, and the value of the template data if not.
\<close>

theorem template_substitution_condition:
  assumes ep: "modules_by_component_type env ct = Some entry_point"
    and clt: "get_component_list_type entry_point st = (clt, st1)"
    and td: "distinct_keys td" and jd: "distinct_keys jd"
    and j: "job_data = VDict jd \<or> (job_data = VNone \<and> jd = [])"
    and eps: "get_entry_points env entry_point ct clt name st1 = (Inr eps, st3)"
  shows "\<exists>paramdict.
           make_paramdict (VDict td) job_data = Inr paramdict
         \<and> (\<forall>k. dict_lookup paramdict k =
                (case dict_lookup jd k of Some v \<Rightarrow> Some v | None \<Rightarrow> dict_lookup td k))
         \<and> dispatch (Suc n) env ct xp (VDict ((name, data) # others)) (VDict td) job_data st =
             (case (if td \<noteq> [] \<or> is_Jinja2Loader data
                    then deep_format env data paramdict (allow_empty_variables env)
                    else Inr data) of
                Inl e \<Rightarrow> (Raised e, st1\<lparr>events := events st1 @ [LogError name data]\<rparr>)
              | Inr component_data \<Rightarrow>
                  (case resolve_macro env ct clt name component_data eps st3 of
                     (Raise e, s) \<Rightarrow> (Raised e, s)
                   | (Expand bs cd, s) \<Rightarrow> dispatch_each n env ct xp bs cd job_data s
                   | (Call nm func cd, s) \<Rightarrow> call_generator env nm func xp cd job_data s))"
proof -
  let ?p = "dict_merge (dict_merge [] td) jd"
  let ?c = "VDict ((name, data) # others)"
  have mk: "make_paramdict (VDict td) job_data = Inr ?p"
    using j by (cases jd) (auto simp: make_paramdict_def)
  have look: "dict_lookup ?p k =
      (case dict_lookup jd k of Some v \<Rightarrow> Some v | None \<Rightarrow> dict_lookup td k)" for k
    using td jd by (simp add: dict_lookup_dict_merge split: option.split)
  have disp: "dispatch (Suc n) env ct xp ?c (VDict td) job_data st =
             (case (if td \<noteq> [] \<or> is_Jinja2Loader data
                    then deep_format env data ?p (allow_empty_variables env)
                    else Inr data) of
                Inl e \<Rightarrow> (Raised e, st1\<lparr>events := events st1 @ [LogError name data]\<rparr>)
              | Inr component_data \<Rightarrow>
                  (case resolve_macro env ct clt name component_data eps st3 of
                     (Raise e, s) \<Rightarrow> (Raised e, s)
                   | (Expand bs cd, s) \<Rightarrow> dispatch_each n env ct xp bs cd job_data s
                   | (Call nm func cd, s) \<Rightarrow> call_generator env nm func xp cd job_data s))"
  proof (cases "td \<noteq> [] \<or> is_Jinja2Loader data")
    case False
    then have "extract_component env ?c (VDict td) job_data st1 = (Inr (name, data), st1)"
      by (simp add: extract_component_def)
    with False ep clt eps show ?thesis by (simp add: resolve_def)
  next
    case True
    show ?thesis
    proof (cases "deep_format env data ?p (allow_empty_variables env)")
      case (Inl e)
      with True mk
      have "extract_component env ?c (VDict td) job_data st1 =
          (Inl e, st1\<lparr>events := events st1 @ [LogError name data]\<rparr>)"
        by (auto simp: extract_component_def)
      with True Inl ep clt show ?thesis by (simp add: resolve_def)
    next
      case (Inr formatted)
      with True mk
      have "extract_component env ?c (VDict td) job_data st1 = (Inr (name, formatted), st1)"
        by (auto simp: extract_component_def)
      with True Inr ep clt eps show ?thesis by (simp add: resolve_def)
    qed
  qed
  from mk look disp show ?thesis by blast
qed

theorem template_substitution_condition_witness:
  "modules_by_component_type example_env ''builder'' = Some builders_ep
   \<and> get_component_list_type builders_ep initial_state = (''builders'', cached_state)
   \<and> distinct_keys [(VInt 1, VStr ''a''), (VStr ''x'', VInt 1)]
   \<and> distinct_keys [(VBool True, VStr ''b''), (VStr ''x'', VInt 2)]
   \<and> get_entry_points example_env builders_ep ''builder'' ''builders'' (VStr ''shell'') cached_state =
       (Inr builders_eps, built_state)
   \<and> make_paramdict (VDict [(VInt 1, VStr ''a''), (VStr ''x'', VInt 1)])
        (VDict [(VBool True, VStr ''b''), (VStr ''x'', VInt 2)]) =
       Inr [(VInt 1, VStr ''b''), (VStr ''x'', VInt 2)]
   \<and> dispatch (Suc 0) example_env ''builder'' 7 (VDict [(VStr ''shell'', VStr ''x'')])
        (VDict [(VInt 1, VStr ''a''), (VStr ''x'', VInt 1)])
        (VDict [(VBool True, VStr ''b''), (VStr ''x'', VInt 2)]) initial_state =
       (Returned,
        built_state\<lparr>events := events built_state @ [Invoke (VStr ''shell'') 0 7 (VInt 2) []]\<rparr>)"
proof -
  let ?td = "[(VInt 1, VStr ''a''), (VStr ''x'', VInt 1)]"
  let ?jd = "[(VBool True, VStr ''b''), (VStr ''x'', VInt 2)]"
  let ?p = "[(VInt 1, VStr ''b''), (VStr ''x'', VInt 2)]"
  have h1: "modules_by_component_type example_env ''builder'' = Some builders_ep"
    by (simp add: example_defs)
  have h2: "get_component_list_type builders_ep initial_state = (''builders'', cached_state)"
    by (simp add: example_defs dispatch_defs)
  have h3: "distinct_keys ?td" by (simp add: distinct_keys_def)
  have h4: "distinct_keys ?jd" by (simp add: distinct_keys_def)
  have h5: "VDict ?jd = VDict ?jd \<or> (VDict ?jd = VNone \<and> ?jd = [])" by simp
  have h6: "get_entry_points example_env builders_ep ''builder'' ''builders'' (VStr ''shell'')
              cached_state = (Inr builders_eps, built_state)"
    by (simp add: example_defs dispatch_defs)
  have mk: "make_paramdict (VDict ?td) (VDict ?jd) = Inr ?p"
    by (simp add: make_paramdict_def key_eq_def)
  have f: "(if ?td \<noteq> [] \<or> is_Jinja2Loader (VStr ''x'')
            then deep_format example_env (VStr ''x'') ?p (allow_empty_variables example_env)
            else Inr (VStr ''x'')) = Inr (VInt 2)"
    by (simp add: example_env_def example_format_def)
  have r: "resolve_macro example_env ''builder'' ''builders'' (VStr ''shell'') (VInt 2)
             builders_eps built_state = (Call (VStr ''shell'') shell_gen (VInt 2), built_state)"
    by (simp add: example_defs dispatch_defs)
  have c: "call_generator example_env (VStr ''shell'') shell_gen 7 (VInt 2) (VDict ?jd) built_state =
       (Returned,
        built_state\<lparr>events := events built_state @ [Invoke (VStr ''shell'') 0 7 (VInt 2) []]\<rparr>)"
    by (simp add: example_defs dispatch_defs)
  from template_substitution_condition [OF h1 h2 h3 h4 h5 h6, of 0 7 "VStr ''x''" "[]"]
  obtain p where p: "make_paramdict (VDict ?td) (VDict ?jd) = Inr p"
    and d: "dispatch (Suc 0) example_env ''builder'' 7 (VDict [(VStr ''shell'', VStr ''x'')])
        (VDict ?td) (VDict ?jd) initial_state =
       (case (if ?td \<noteq> [] \<or> is_Jinja2Loader (VStr ''x'')
              then deep_format example_env (VStr ''x'') p (allow_empty_variables example_env)
              else Inr (VStr ''x'')) of
          Inl e \<Rightarrow> (Raised e, cached_state\<lparr>events := events cached_state @
                                   [LogError (VStr ''shell'') (VStr ''x'')]\<rparr>)
        | Inr component_data \<Rightarrow>
            (case resolve_macro example_env ''builder'' ''builders'' (VStr ''shell'') component_data
                    builders_eps built_state of
               (Raise e, s) \<Rightarrow> (Raised e, s)
             | (Expand bs cd, s) \<Rightarrow> dispatch_each 0 example_env ''builder'' 7 bs cd (VDict ?jd) s
             | (Call nm func cd, s) \<Rightarrow>
                 call_generator example_env nm func 7 cd (VDict ?jd) s))"
    by blast
  from p mk have "p = ?p" by simp
  with d have "dispatch (Suc 0) example_env ''builder'' 7 (VDict [(VStr ''shell'', VStr ''x'')])
        (VDict ?td) (VDict ?jd) initial_state =
       (Returned,
        built_state\<lparr>events := events built_state @ [Invoke (VStr ''shell'') 0 7 (VInt 2) []]\<rparr>)"
    by (simp only: f r c sum.case prod.case action.case)
  with h1 h2 h3 h4 h6 mk show ?thesis by blast
qed

subsection \<open>Duplicate entry points\<close>

lemma collect_eps_duplicate:
  "(\<exists>k \<in> fst ` set xs. eps k \<noteq> None) \<or> \<not> distinct (map fst xs) \<Longrightarrow>
   collect_eps xs eps ct name = Inl (JenkinsJobsException (Duplicate_entry_point ct name))"
proof (induction xs arbitrary: eps)
  case Nil
  then show ?case by simp
next
  case (Cons p xs)
  obtain k g where p: "p = (k, g)" by (cases p)
  show ?case
  proof (cases "eps k")
    case (Some g')
    with p show ?thesis by simp
  next
    case None
    have "(\<exists>k' \<in> fst ` set xs. (eps(k \<mapsto> g)) k' \<noteq> None) \<or> \<not> distinct (map fst xs)"
      using Cons.prems p None by auto
    from Cons.IH[OF this] p None show ?thesis by (simp add: fun_upd_def)
  qed
qed

lemma extract_component_success:
  "extract_component env c td jd s = (Inr x, s') \<Longrightarrow>
   s' = s \<and> extract_component env c td jd t = (Inr x, t)"
  by (auto simp: extract_component_def split: pyval.splits list.splits sum.splits if_splits)

lemma get_component_list_type_cached:
  "get_component_list_type ep s = (clt, s1) \<Longrightarrow>
   component_type_cache s1 (ep_id ep) = Some clt \<and> entry_points_cache s1 = entry_points_cache s
   \<and> get_component_list_type ep s1 = (clt, s1)"
  by (auto simp: get_component_list_type_def split: option.splits)

text \<open>
  Claim C3. When the table of a list type is not cached and a name is declared both
  by a function of the module (through its docstring) and by a registered entry
  point, \<^verbatim>\<open>dispatch\<close> raises \<^verbatim>\<open>JenkinsJobsException\<close> while it builds the
  table, and caches no table. A second dispatch for the same component type, of the
  same or of another component, builds the table again and raises the same error.
\<close>

theorem duplicate_entry_point_fatal:
  assumes ep: "modules_by_component_type env ct = Some entry_point"
    and clt: "get_component_list_type entry_point st = (clt, st1)"
    and ex: "extract_component env component td jd st1 = (Inr (name, cd), st2)"
    and nc: "entry_points_cache st clt = None"
    and d1: "d \<in> fst ` set (auto_entry_points entry_point)"
    and d2: "d \<in> fst ` set (iter_entry_points env (''jenkins_jobs.'' @ clt))"
    and ex': "extract_component env component' td' jd' st2 = (Inr (name', cd'), st2')"
  shows "dispatch (Suc n) env ct xp component td jd st =
           (Raised (JenkinsJobsException (Duplicate_entry_point ct name)), st2)
       \<and> entry_points_cache st2 clt = None
       \<and> dispatch (Suc m) env ct xp' component' td' jd' st2 =
           (Raised (JenkinsJobsException (Duplicate_entry_point ct name')), st2)"
proof -
  have dup: "collect_eps (module_eps env entry_point clt) Map.empty ct nm =
      Inl (JenkinsJobsException (Duplicate_entry_point ct nm))" for nm
  proof (rule collect_eps_duplicate, rule disjI2)
    from d1 d2 show "\<not> distinct (map fst (module_eps env entry_point clt))"
      by (auto simp: module_eps_def)
  qed
  from ex have st2: "st2 = st1" by (simp add: extract_component_success)
  from ex' have st2': "st2' = st2"
    and ex2: "extract_component env component' td' jd' st2 = (Inr (name', cd'), st2)"
    by (simp_all add: extract_component_success)
  from clt have c1: "entry_points_cache st1 = entry_points_cache st"
    and c2: "get_component_list_type entry_point st1 = (clt, st1)"
    by (simp_all add: get_component_list_type_cached)
  have g: "entry_points_cache s clt = None \<Longrightarrow> get_entry_points env entry_point ct clt nm s =
      (Inl (JenkinsJobsException (Duplicate_entry_point ct nm)), s)" for nm s
    by (simp add: get_entry_points_def dup)
  have first: "dispatch (Suc n) env ct xp component td jd st =
           (Raised (JenkinsJobsException (Duplicate_entry_point ct name)), st2)"
    using ep clt ex g[of st2 name] nc c1 st2 by (simp add: resolve_def)
  have second: "dispatch (Suc m) env ct xp' component' td' jd' st2 =
           (Raised (JenkinsJobsException (Duplicate_entry_point ct name')), st2)"
    using ep c2 ex2 g[of st2 name'] nc c1 st2 by (simp add: resolve_def)
  from first second nc c1 st2 show ?thesis by simp
qed

theorem duplicate_entry_point_fatal_witness:
  "modules_by_component_type example_env ''publisher'' = Some publishers_ep
   \<and> get_component_list_type publishers_ep initial_state = (''publishers'', publishers_cached_state)
   \<and> extract_component example_env (VStr ''archive'') (VDict []) VNone publishers_cached_state =
       (Inr (VStr ''archive'', VDict []), publishers_cached_state)
   \<and> entry_points_cache initial_state ''publishers'' = None
   \<and> ''archive'' \<in> fst ` set (auto_entry_points publishers_ep)
   \<and> ''archive'' \<in> fst ` set (iter_entry_points example_env (''jenkins_jobs.'' @ ''publishers''))
   \<and> dispatch (Suc 0) example_env ''publisher'' 7 (VStr ''archive'') (VDict []) VNone initial_state =
       (Raised (JenkinsJobsException (Duplicate_entry_point ''publisher'' (VStr ''archive''))),
        publishers_cached_state)
   \<and> entry_points_cache publishers_cached_state ''publishers'' = None
   \<and> dispatch (Suc 0) example_env ''publisher'' 8 (VStr ''archive'') (VDict []) VNone publishers_cached_state =
       (Raised (JenkinsJobsException (Duplicate_entry_point ''publisher'' (VStr ''archive''))),
        publishers_cached_state)"
proof -
  have h1: "modules_by_component_type example_env ''publisher'' = Some publishers_ep"
    by (simp add: example_defs)
  have h2: "get_component_list_type publishers_ep initial_state = (''publishers'', publishers_cached_state)"
    by (simp add: publishers_cached_state_def example_defs dispatch_defs)
  have h3: "extract_component example_env (VStr ''archive'') (VDict []) VNone publishers_cached_state =
       (Inr (VStr ''archive'', VDict []), publishers_cached_state)"
    by (simp add: extract_component_def)
  have h4: "entry_points_cache initial_state ''publishers'' = None"
    by (simp add: initial_state_def)
  have h5: "''archive'' \<in> fst ` set (auto_entry_points publishers_ep)"
    by (simp add: example_defs dispatch_defs)
  have h6: "''archive'' \<in> fst ` set (iter_entry_points example_env (''jenkins_jobs.'' @ ''publishers''))"
    by (simp add: example_defs)
  from duplicate_entry_point_fatal [OF h1 h2 h3 h4 h5 h6 h3, of 0 7 0 8] h1 h2 h3 h4 h5 h6
  show ?thesis by blast
qed

subsection \<open>A macro that masks a generator\<close>

lemma get_component_list_type_potential:
  "get_component_list_type ep st = (clt, st') \<Longrightarrow> warn_potential nm st' = warn_potential nm st"
  by (auto simp: get_component_list_type_def warn_potential_def split: option.splits)

lemma extract_component_potential:
  "extract_component env c td jd st = (r, st') \<Longrightarrow> warn_potential nm st' = warn_potential nm st"
  by (auto simp: extract_component_def warn_potential_def warnings_for_def
      split: pyval.splits list.splits sum.splits if_splits)

lemma get_entry_points_potential:
  "get_entry_points env ep ct clt name st = (r, st') \<Longrightarrow>
   warn_potential nm st' = warn_potential nm st"
  by (auto simp: get_entry_points_def warn_potential_def split: option.splits sum.splits)

lemma warn_masked_potential:
  "warn_potential nm (warn_masked eps name ct st) = warn_potential nm st"
  by (auto simp: warn_masked_def warn_potential_def warnings_for_def)

lemma resolve_macro_potential:
  "resolve_macro env ct clt name cd eps st = (a, st') \<Longrightarrow>
   warn_potential nm st' = warn_potential nm st"
  by (auto simp: resolve_macro_def Let_def warn_masked_potential
      split: sum.splits if_splits option.splits)

lemma resolve_potential:
  assumes "resolve env ct c td jd st = (a, st')"
  shows "warn_potential nm st' = warn_potential nm st"
proof (cases "modules_by_component_type env ct")
  case None
  with assms show ?thesis by (simp add: resolve_def)
next
  case (Some ep)
  obtain clt st1 where g: "get_component_list_type ep st = (clt, st1)"
    by (cases "get_component_list_type ep st")
  obtain r st2 where e: "extract_component env c td jd st1 = (r, st2)"
    by (cases "extract_component env c td jd st1")
  have p2: "warn_potential nm st2 = warn_potential nm st"
    using get_component_list_type_potential[OF g] extract_component_potential[OF e] by simp
  show ?thesis
  proof (cases r)
    case (Inl err)
    with assms Some g e p2 show ?thesis by (simp add: resolve_def)
  next
    case (Inr nd)
    obtain name cd where nd: "nd = (name, cd)" by (cases nd)
    obtain r3 st3 where t: "get_entry_points env ep ct clt name st2 = (r3, st3)"
      by (cases "get_entry_points env ep ct clt name st2")
    have p3: "warn_potential nm st3 = warn_potential nm st"
      using get_entry_points_potential[OF t] p2 by simp
    show ?thesis
    proof (cases r3)
      case (Inl err)
      with assms Some g e Inr nd t p3 show ?thesis by (simp add: resolve_def)
    next
      case (Inr eps)
      with assms Some g e \<open>r = Inr nd\<close> nd t
      have "resolve_macro env ct clt name cd eps st3 = (a, st')" by (simp add: resolve_def)
      from resolve_macro_potential[OF this] p3 show ?thesis by simp
    qed
  qed
qed

lemma call_generator_potential:
  "call_generator env name func xp cd jd st = (r, st') \<Longrightarrow>
   warn_potential nm st' = warn_potential nm st"
  by (auto simp: call_generator_def Let_def warn_potential_def warnings_for_def split: option.splits)

lemma dispatch_potential:
  "warn_potential nm (snd (dispatch n env ct xp c td jd st)) = warn_potential nm st"
  "warn_potential nm (snd (dispatch_each n env ct xp bs td jd st)) = warn_potential nm st"
proof (induction n env ct xp c td jd st and n env ct xp bs td jd st
       rule: dispatch_dispatch_each.induct)
  case (1 env ct xp c td jd st)
  show ?case by simp
next
  case (2 n env ct xp c td jd st)
  obtain a st' where r: "resolve env ct c td jd st = (a, st')"
    by (cases "resolve env ct c td jd st")
  note p = resolve_potential[OF r, of nm]
  show ?case
  proof (cases a)
    case (Raise e)
    with r p show ?thesis by simp
  next
    case (Expand bs cd)
    with r p "2.IH"[OF r[symmetric] Expand] show ?thesis by simp
  next
    case (Call name func cd)
    obtain q s where c: "call_generator env name func xp cd jd st' = (q, s)"
      by (cases "call_generator env name func xp cd jd st'")
    with r p Call call_generator_potential[OF c, of nm] show ?thesis by simp
  qed
next
  case (3 n env ct xp td jd st)
  show ?case by simp
next
  case (4 n env ct xp b bs td jd st)
  obtain q s where d: "dispatch n env ct xp b td jd st = (q, s)"
    by (cases "dispatch n env ct xp b td jd st")
  from "4.IH"(1) d have p: "warn_potential nm s = warn_potential nm st" by simp
  show ?case
  proof (cases "q = Returned")
    case True
    with d p "4.IH"(2)[OF d[symmetric, unfolded True]] show ?thesis by simp
  next
    case False
    with d p show ?thesis by (cases q) simp_all
  qed
qed

lemma dispatch_calls_potential:
  "warn_potential nm (dispatch_calls n env calls st) = warn_potential nm st"
proof (induction calls arbitrary: st)
  case Nil
  show ?case by simp
next
  case (Cons c calls)
  obtain ct xp comp td jd where c: "c = (ct, xp, comp, td, jd)" by (cases c)
  show ?case using Cons.IH c by (simp add: dispatch_potential(1))
qed

lemma at_most_one_new_warning:
  "warnings_for nm (events (dispatch_calls n env calls st)) \<le> warnings_for nm (events st) + 1"
  using dispatch_calls_potential[of nm n env calls st]
  by (simp add: warn_potential_def split: if_splits)


text \<open>
  Claim C2, as the code has it. A name that is a macro of the component type and a
  generator of the table is expanded as the macro: the call is the loop over the body
  of the macro, on the state in which the name has been warned about (the warning is
  logged if the name was not yet among the names warned of this instance). Over any
  sequence of calls on one instance, whatever their arguments and outcomes, at most
  one new warning is logged for a name.
\<close>

theorem macro_masks_generator_warned_once:
  assumes "modules_by_component_type env ct = Some entry_point"
    and "get_component_list_type entry_point st = (clt, st1)"
    and "extract_component env component td jd st1 = (Inr (name, cd), st2)"
    and "get_entry_points env entry_point ct clt name st2 = (Inr eps, st3)"
    and "lookup_macro env ct name = Inr macro"
    and "py_truthy macro"
    and "eps_lookup eps name = Some func"
    and "py_getitem macro (VStr clt) = Inr body"
    and "py_iter body = Inr bs"
  shows "dispatch (Suc n) env ct xp component td jd st =
           dispatch_each n env ct xp bs cd jd
             (if name \<in> masked_warned st3 then st3
              else st3\<lparr>masked_warned := insert name (masked_warned st3),
                      events := events st3 @ [LogWarning name ct]\<rparr>)
       \<and> (\<forall>k calls s nm.
             warnings_for nm (events (dispatch_calls k env calls s)) \<le> warnings_for nm (events s) + 1)"
proof -
  have "resolve env ct component td jd st =
      (Expand bs cd, if name \<in> masked_warned st3 then st3
              else st3\<lparr>masked_warned := insert name (masked_warned st3),
                      events := events st3 @ [LogWarning name ct]\<rparr>)"
    using assms(5-9) resolve_front[OF assms(1-4)]
    by (simp add: resolve_macro_def warn_masked_def Let_def)
  then have "dispatch (Suc n) env ct xp component td jd st =
           dispatch_each n env ct xp bs cd jd
             (if name \<in> masked_warned st3 then st3
              else st3\<lparr>masked_warned := insert name (masked_warned st3),
                      events := events st3 @ [LogWarning name ct]\<rparr>)"
    by simp
  with at_most_one_new_warning show ?thesis by blast
qed

text \<open>
  The names warned belong to the instance (line 47), not to the process: a second
  instance in the same process logs the warning again, so the claim as stated, once
  per name for the life of the process, does not hold.
\<close>

theorem warning_repeated_by_second_instance:
  "warnings_for (VStr ''build'')
     (events (snd (dispatch (Suc (Suc 0)) second_env ''builder'' 7 (VStr ''build'') (VDict []) VNone
        (new_instance
          (snd (dispatch (Suc (Suc 0)) example_env ''builder'' 7 (VStr ''build'') (VDict []) VNone
                 initial_state)))))) = 2"
  by (simp add: example_defs dispatch_defs new_instance_def warnings_for_def)

theorem macro_masks_generator_warned_once_witness:
  "modules_by_component_type example_env ''builder'' = Some builders_ep
   \<and> get_component_list_type builders_ep initial_state = (''builders'', cached_state)
   \<and> extract_component example_env (VStr ''build'') (VDict []) VNone cached_state =
       (Inr (VStr ''build'', VDict []), cached_state)
   \<and> get_entry_points example_env builders_ep ''builder'' ''builders'' (VStr ''build'') cached_state =
       (Inr builders_eps, built_state)
   \<and> lookup_macro example_env ''builder'' (VStr ''build'') =
       Inr (VDict [(VStr ''name'', VStr ''build''),
              (VStr ''builders'', VList [VStr ''shell'', VDict [(VStr ''shell'', VStr ''x'')]])])
   \<and> py_truthy (VDict [(VStr ''name'', VStr ''build''),
              (VStr ''builders'', VList [VStr ''shell'', VDict [(VStr ''shell'', VStr ''x'')]])])
   \<and> eps_lookup builders_eps (VStr ''build'') = Some build_gen
   \<and> py_getitem (VDict [(VStr ''name'', VStr ''build''),
              (VStr ''builders'', VList [VStr ''shell'', VDict [(VStr ''shell'', VStr ''x'')]])])
        (VStr ''builders'') = Inr (VList [VStr ''shell'', VDict [(VStr ''shell'', VStr ''x'')]])
   \<and> py_iter (VList [VStr ''shell'', VDict [(VStr ''shell'', VStr ''x'')]]) =
        Inr [VStr ''shell'', VDict [(VStr ''shell'', VStr ''x'')]]
   \<and> dispatch (Suc (Suc 0)) example_env ''builder'' 7 (VStr ''build'') (VDict []) VNone initial_state =
       dispatch_each (Suc 0) example_env ''builder'' 7
         [VStr ''shell'', VDict [(VStr ''shell'', VStr ''x'')]] (VDict []) VNone masked_state
   \<and> warnings_for (VStr ''build'')
        (events (dispatch_calls (Suc (Suc 0)) example_env
           [(''builder'', 7, VStr ''build'', VDict [], VNone),
            (''builder'', 7, VStr ''build'', VDict [], VNone),
            (''builder'', 8, VStr ''build'', VDict [], VNone)] initial_state)) \<le> 1"
proof -
  let ?m = "VDict [(VStr ''name'', VStr ''build''),
              (VStr ''builders'', VList [VStr ''shell'', VDict [(VStr ''shell'', VStr ''x'')]])]"
  let ?calls = "[(''builder'', 7, VStr ''build'', VDict [], VNone),
            (''builder'', 7, VStr ''build'', VDict [], VNone),
            (''builder'', 8, VStr ''build'', VDict [], VNone)]"
  have h1: "modules_by_component_type example_env ''builder'' = Some builders_ep"
    by (simp add: example_defs)
  have h2: "get_component_list_type builders_ep initial_state = (''builders'', cached_state)"
    by (simp add: example_defs dispatch_defs)
  have h3: "extract_component example_env (VStr ''build'') (VDict []) VNone cached_state =
       (Inr (VStr ''build'', VDict []), cached_state)"
    by (simp add: extract_component_def)
  have h4: "get_entry_points example_env builders_ep ''builder'' ''builders'' (VStr ''build'')
              cached_state = (Inr builders_eps, built_state)"
    by (simp add: example_defs dispatch_defs)
  have h5: "lookup_macro example_env ''builder'' (VStr ''build'') = Inr ?m"
    by (simp add: example_defs dispatch_defs)
  have h6: "py_truthy ?m" by simp
  have h7: "eps_lookup builders_eps (VStr ''build'') = Some build_gen"
    by (simp add: example_defs dispatch_defs)
  have h8: "py_getitem ?m (VStr ''builders'') =
              Inr (VList [VStr ''shell'', VDict [(VStr ''shell'', VStr ''x'')]])"
    by simp
  have h9: "py_iter (VList [VStr ''shell'', VDict [(VStr ''shell'', VStr ''x'')]]) =
        Inr [VStr ''shell'', VDict [(VStr ''shell'', VStr ''x'')]]"
    by simp
  have w: "(if VStr ''build'' \<in> masked_warned built_state then built_state
              else built_state\<lparr>masked_warned := insert (VStr ''build'') (masked_warned built_state),
                      events := events built_state @ [LogWarning (VStr ''build'') ''builder'']\<rparr>) =
           masked_state"
    by (simp add: example_defs dispatch_defs masked_state_def)
  have z: "warnings_for (VStr ''build'') (events initial_state) = 0"
    by (simp add: initial_state_def warnings_for_def)
  note t = macro_masks_generator_warned_once [OF h1 h2 h3 h4 h5 h6 h7 h8 h9, of "Suc 0" 7]
  from t w have a: "dispatch (Suc (Suc 0)) example_env ''builder'' 7 (VStr ''build'') (VDict []) VNone
        initial_state =
       dispatch_each (Suc 0) example_env ''builder'' 7
         [VStr ''shell'', VDict [(VStr ''shell'', VStr ''x'')]] (VDict []) VNone masked_state"
    by (simp del: dispatch.simps)
  from t have "warnings_for (VStr ''build'')
        (events (dispatch_calls (Suc (Suc 0)) example_env ?calls initial_state)) \<le>
        warnings_for (VStr ''build'') (events initial_state) + 1"
    by blast
  with z have b: "warnings_for (VStr ''build'')
        (events (dispatch_calls (Suc (Suc 0)) example_env ?calls initial_state)) \<le> 1"
    by simp
  from h1 h2 h3 h4 h5 h6 h7 h8 h9 a b show ?thesis by blast
qed

subsection \<open>The version of a plugin\<close>

lemma marker_at_Nil: "marker_at [] = None"
  by (simp add: marker_at_def)

lemma no_marker_drop: "\<not> has_marker s \<Longrightarrow> marker_at (drop k s) = None"
proof (induction s arbitrary: k)
  case Nil
  show ?case by (simp add: marker_at_Nil)
next
  case (Cons c cs)
  then show ?case by (cases k) auto
qed

lemma backtrack_None: "(\<And>j. marker_at (drop j s) = None) \<Longrightarrow> backtrack s n = None"
proof (induction n)
  case 0
  from "0"[of 0] show ?case by simp
next
  case (Suc n)
  from Suc.prems[of "Suc n"] Suc.IH[OF Suc.prems] show ?case by simp
qed

lemma re_sub_preview_no_marker: "\<not> has_marker s \<Longrightarrow> re_sub_preview s = s"
proof (induction s)
  case Nil
  show ?case by simp
next
  case (Cons c cs)
  from Cons.prems have "backtrack (c # cs) n = None" for n
    by (intro backtrack_None no_marker_drop)
  then have "match_here (c # cs) = None" by (simp add: match_here_def)
  moreover from Cons.prems have "\<not> has_marker cs" by simp
  ultimately show ?case using Cons.IH by simp
qed

lemma backtrack_last:
  "k \<le> n \<Longrightarrow> marker_at (drop k s) = Some m \<Longrightarrow>
   (\<And>j. k < j \<Longrightarrow> j \<le> n \<Longrightarrow> marker_at (drop j s) = None) \<Longrightarrow>
   backtrack s n = Some (k, m)"
proof (induction n)
  case 0
  then show ?case by simp
next
  case (Suc n)
  show ?case
  proof (cases "k = Suc n")
    case True
    with Suc.prems(2) show ?thesis by simp
  next
    case False
    with Suc.prems(1) have kn: "k \<le> n" by simp
    from False Suc.prems(1) Suc.prems(3)[of "Suc n"] have "marker_at (drop (Suc n) s) = None"
      by simp
    moreover have "backtrack s n = Some (k, m)"
      using kn Suc.prems(2) Suc.prems(3) by (intro Suc.IH) auto
    ultimately show ?thesis by simp
  qed
qed

lemma marker_at_head: "marker_at s \<noteq> None \<Longrightarrow> \<exists>t. s = CHR ''-'' # t"
  by (cases s) (auto simp: marker_at_def split: if_splits)

lemma marker_inside:
  assumes m: "m = ''-SNAPSHOT'' \<or> m = ''-BETA''" and j: "0 < j" and nm: "\<not> has_marker rest"
  shows "marker_at (drop j (m @ rest)) = None"
proof (cases "j < length m")
  case False
  then have "drop j (m @ rest) = drop (j - length m) rest" by simp
  with nm show ?thesis by (simp add: no_marker_drop)
next
  case True
  from j obtain i where i: "j = Suc i" by (cases j) auto
  have tl: "CHR ''-'' \<notin> set (tl m)" using m by auto
  from True i have ne: "drop i (tl m) \<noteq> []" by simp
  have il: "i < length (tl m)" using True i by simp
  have "drop j (m @ rest) = drop i (tl m @ rest)"
    using m i by (auto simp: drop_Suc)
  also have "\<dots> = drop i (tl m) @ rest"
    using il by simp
  finally have "drop j (m @ rest) = drop i (tl m) @ rest" .
  moreover have "hd (drop i (tl m) @ rest) \<in> set (tl m)"
    using ne by (metis hd_append2 hd_in_set in_set_dropD)
  ultimately have "\<not> (\<exists>t. drop j (m @ rest) = CHR ''-'' # t)"
    using tl by (metis list.sel(1))
  with marker_at_head show ?thesis by blast
qed

lemma marker_at_marker:
  "m = ''-SNAPSHOT'' \<or> m = ''-BETA'' \<Longrightarrow> marker_at (m @ rest) = Some (length m)"
  by (auto simp: marker_at_def)

lemma re_sub_preview_marker:
  assumes m: "m = ''-SNAPSHOT'' \<or> m = ''-BETA''"
    and nl: "newline \<notin> set (base @ m @ rest)"
    and nm: "\<not> has_marker rest"
  shows "re_sub_preview (base @ m @ rest) = base @ ''.preview''"
proof -
  let ?s = "base @ m @ rest"
  have all: "newline \<notin> set t \<Longrightarrow> dot_star t = length t" for t
  proof -
    assume "newline \<notin> set t"
    then have "takeWhile (\<lambda>c. c \<noteq> newline) t = t"
      by (auto simp: takeWhile_eq_all_conv)
    then show ?thesis by (simp only: dot_star_def)
  qed
  have ds: "dot_star ?s = length ?s" using nl by (intro all)
  have dr: "dot_star rest = length rest" using nl by (intro all) simp
  have at: "marker_at (drop (length base) ?s) = Some (length m)"
    using m by (simp add: marker_at_marker)
  have later: "marker_at (drop j ?s) = None" if "length base < j" for j
  proof -
    from that have "drop j ?s = drop (j - length base) (m @ rest)" by simp
    with marker_inside[OF m _ nm, of "j - length base"] that show ?thesis by simp
  qed
  have bt: "backtrack ?s (length ?s) = Some (length base, length m)"
    by (rule backtrack_last) (use at later in auto)
  have mh: "match_here ?s = Some (base, [])"
    using bt ds dr by (simp add: match_here_def)
  obtain c cs where s: "?s = c # cs" using m by (cases ?s) auto
  have "re_sub_preview (c # cs) = base @ ''.preview''"
    using mh unfolding s by simp
  with s show ?thesis by simp
qed


text \<open>
  Claim C7, as the code has it. The version of a descriptor is replaced by the
  result of the substitution. For a version without newline that holds
  \<^verbatim>\<open>-SNAPSHOT\<close> or \<^verbatim>\<open>-BETA\<close>, the result is the text before the last
  occurrence of either, followed by \<^verbatim>\<open>.preview\<close>; a version that holds neither
  is not changed. The three examples of the specification hold.
\<close>

theorem version_normalised:
  assumes v: "dict_lookup plugin_info (VStr ''version'') = Some (VStr version)"
    and mu: "mutate_plugin_info r plugin_info = Inr (plugin_info', d)"
  shows "dict_lookup plugin_info' (VStr ''version'') = Some (VStr (re_sub_preview version))
       \<and> ((m = ''-SNAPSHOT'' \<or> m = ''-BETA'') \<and> version = base @ m @ rest
            \<and> newline \<notin> set version \<and> \<not> has_marker rest \<longrightarrow>
          re_sub_preview version = base @ ''.preview'')
       \<and> (\<not> has_marker version \<longrightarrow> re_sub_preview version = version)
       \<and> re_sub_preview ''1.2-SNAPSHOT'' = ''1.2.preview''
       \<and> re_sub_preview ''1.2-BETA3'' = ''1.2.preview''
       \<and> re_sub_preview ''1.2'' = ''1.2''"
proof -
  from v mu have "plugin_info' = dict_set plugin_info (VStr ''version'') (VStr (re_sub_preview version))"
    by (auto simp: mutate_plugin_info_def Let_def split: sum.splits)
  then have "dict_lookup plugin_info' (VStr ''version'') = Some (VStr (re_sub_preview version))"
    by (simp add: dict_lookup_dict_set)
  moreover have "(m = ''-SNAPSHOT'' \<or> m = ''-BETA'') \<and> version = base @ m @ rest
            \<and> newline \<notin> set version \<and> \<not> has_marker rest \<longrightarrow>
          re_sub_preview version = base @ ''.preview''"
    using re_sub_preview_marker[of m base rest] by blast
  moreover have "\<not> has_marker version \<longrightarrow> re_sub_preview version = version"
    using re_sub_preview_no_marker by blast
  moreover have "re_sub_preview ''1.2-SNAPSHOT'' = ''1.2.preview''"
    by (simp add: match_here_def dot_star_def marker_at_def newline_def)
  moreover have "re_sub_preview ''1.2-BETA3'' = ''1.2.preview''"
    by (simp add: match_here_def dot_star_def marker_at_def newline_def)
  moreover have "re_sub_preview ''1.2'' = ''1.2''"
    by (simp add: match_here_def dot_star_def marker_at_def newline_def)
  ultimately show ?thesis by blast
qed

text \<open>
  A dot matches no newline, so only the line with the marker is rewritten: the
  result is neither the base with \<^verbatim>\<open>.preview\<close> nor the version unchanged.
\<close>

theorem version_with_newline_counterexample:
  "re_sub_preview (''1.2-SNAPSHOT'' @ [CHR 0x0A] @ ''rc'') = ''1.2.preview'' @ [CHR 0x0A] @ ''rc''
   \<and> re_sub_preview (''1.2-SNAPSHOT'' @ [CHR 0x0A] @ ''rc'') \<noteq> ''1.2.preview''
   \<and> re_sub_preview (''1.2-SNAPSHOT'' @ [CHR 0x0A] @ ''rc'') \<noteq> ''1.2-SNAPSHOT'' @ [CHR 0x0A] @ ''rc''"
  by (simp add: match_here_def dot_star_def marker_at_def newline_def)

theorem version_normalised_witness:
  "dict_lookup git_plugin (VStr ''version'') = Some (VStr ''1.2-SNAPSHOT'')
   \<and> mutate_plugin_info 0 git_plugin =
       Inr ([(VStr ''longName'', VStr ''Git plugin''), (VStr ''shortName'', VStr ''git''),
             (VStr ''version'', VStr ''1.2.preview'')],
            [(VStr ''Git plugin'', 0), (VStr ''git'', 0)])
   \<and> (''-SNAPSHOT'' = ''-SNAPSHOT'' \<or> ''-SNAPSHOT'' = ''-BETA'')
   \<and> ''1.2-SNAPSHOT'' = ''1.2'' @ ''-SNAPSHOT'' @ []
   \<and> newline \<notin> set ''1.2-SNAPSHOT''
   \<and> \<not> has_marker []
   \<and> re_sub_preview ''1.2-SNAPSHOT'' = ''1.2'' @ ''.preview''
   \<and> dict_lookup [(VStr ''longName'', VStr ''Git plugin''), (VStr ''shortName'', VStr ''git''),
             (VStr ''version'', VStr ''1.2.preview'')] (VStr ''version'') =
       Some (VStr (re_sub_preview ''1.2-SNAPSHOT''))"
proof -
  have rs: "re_sub_preview ''1.2-SNAPSHOT'' = ''1.2.preview''"
    by (simp add: match_here_def dot_star_def marker_at_def newline_def)
  have h1: "dict_lookup git_plugin (VStr ''version'') = Some (VStr ''1.2-SNAPSHOT'')"
    by (simp add: git_plugin_def)
  have h2: "mutate_plugin_info 0 git_plugin =
       Inr ([(VStr ''longName'', VStr ''Git plugin''), (VStr ''shortName'', VStr ''git''),
             (VStr ''version'', VStr ''1.2.preview'')],
            [(VStr ''Git plugin'', 0), (VStr ''git'', 0)])"
    by (simp add: git_plugin_def mutate_plugin_info_def aliases_of_def rs del: re_sub_preview.simps)
  have h3: "(''-SNAPSHOT'' = ''-SNAPSHOT'' \<or> ''-SNAPSHOT'' = ''-BETA'')
     \<and> ''1.2-SNAPSHOT'' = ''1.2'' @ ''-SNAPSHOT'' @ []
     \<and> newline \<notin> set ''1.2-SNAPSHOT'' \<and> \<not> has_marker []"
    by (simp add: newline_def)
  from version_normalised [OF h1 h2, of "''-SNAPSHOT''" "''1.2''" "[]"] h1 h2 h3
  show ?thesis by blast
qed

subsection \<open>Queries of the plugin metadata store\<close>


















end
